theory Spec2Isabelle
  imports Main "HOL-Library.Sublist"
begin

section \<open>StripChromeSymbols.py: strings and regular expressions\<close>

text \<open>
  The script \<^verbatim>\<open>bin/StripChromeSymbols.py\<close> is glue around three external tools.
  Its own logic is string scanning with two regular expressions, a handful of
  file-system calls and the control flow of \<^verbatim>\<open>main\<close> and
  \<^verbatim>\<open>run_and_look_for_matches\<close>. Python strings are \<^typ>\<open>string\<close>.
  The characters that cannot be written inside a string literal get names.
\<close>

definition bslash :: char where
  "bslash = CHR 0x5C"

definition dquote :: char where
  "dquote = CHR 0x22"

definition newline :: char where
  "newline = CHR 0x0A"

text \<open>
  \<^verbatim>\<open>s.count(sub)\<close>: the number of non-overlapping occurrences of \<^verbatim>\<open>sub\<close>
  in \<^verbatim>\<open>s\<close>, scanning from the left. For the empty \<^verbatim>\<open>sub\<close> Python
  answers \<^verbatim>\<open>len(s) + 1\<close>.
\<close>

fun str_count :: "string \<Rightarrow> string \<Rightarrow> nat" where
  "str_count sub [] = (if sub = [] then 1 else 0)"
| "str_count sub (c # cs) =
     (if sub = [] then Suc (str_count sub cs)
      else if prefix sub (c # cs) then Suc (str_count sub (drop (length sub - 1) cs))
      else str_count sub cs)"

text \<open>\<^verbatim>\<open>s.replace("-", "")\<close> deletes every dash.\<close>

definition remove_dashes :: "string \<Rightarrow> string" where
  "remove_dashes s = filter (\<lambda>c. c \<noteq> CHR ''-'') s"

text \<open>
  The fragment of Python's \<^verbatim>\<open>re\<close> syntax that the two patterns of the script
  use: literal characters, the greedy \<^verbatim>\<open>.*\<close> (where \<^verbatim>\<open>.\<close> is any character
  but a line feed), and unnested capture groups.
\<close>

datatype rx = Lit char | AnyStar | GOpen | GClose

text \<open>
  \<^verbatim>\<open>re.match\<close>: a backtracking match anchored at the start of the string and free at
  its end. \<open>rx_run p s st caps\<close> matches the pattern rest \<open>p\<close> against the input rest
  \<open>s\<close>; \<open>st\<close> is the input rest at the last opened group and \<open>caps\<close> the groups
  closed so far. The greedy star first tries to take one more character and falls
  back to taking none, which is the order in which Python explores the matches.
\<close>

fun rx_run :: "rx list \<Rightarrow> string \<Rightarrow> string \<Rightarrow> string list \<Rightarrow> string list option" where
  "rx_run [] s st caps = Some caps"
| "rx_run (Lit c # p) [] st caps = None"
| "rx_run (Lit c # p) (x # xs) st caps = (if x = c then rx_run p xs st caps else None)"
| "rx_run (GOpen # p) s st caps = rx_run p s s caps"
| "rx_run (GClose # p) s st caps = rx_run p s st (caps @ [take (length st - length s) st])"
| "rx_run (AnyStar # p) [] st caps = rx_run p [] st caps"
| "rx_run (AnyStar # p) (x # xs) st caps =
     (if x = newline then rx_run p (x # xs) st caps
      else (case rx_run (AnyStar # p) xs st caps of
              Some r \<Rightarrow> Some r
            | None \<Rightarrow> rx_run p (x # xs) st caps))"

definition re_match :: "rx list \<Rightarrow> string \<Rightarrow> string list option" where
  "re_match p s = rx_run p s s []"

definition lits :: "string \<Rightarrow> rx list" where
  "lits s = map Lit s"

text \<open>
  \<^verbatim>\<open>pdb_re = re.compile(r'"\[RSDS\] PdbSig: {(.*-.*-.*-.*-.*)}; Age: (.*); Pdb: (.*)"')\<close>
\<close>

definition pdb_re :: "rx list" where
  "pdb_re = lits (dquote # ''[RSDS] PdbSig: {'')
     @ [GOpen, AnyStar, Lit CHR ''-'', AnyStar, Lit CHR ''-'', AnyStar, Lit CHR ''-'',
        AnyStar, Lit CHR ''-'', AnyStar, GClose]
     @ lits ''}; Age: '' @ [GOpen, AnyStar, GClose]
     @ lits ''; Pdb: '' @ [GOpen, AnyStar, GClose]
     @ [Lit dquote]"

text \<open>\<^verbatim>\<open>pdb_cached_re = re.compile(r"Found .*file - placed it in (.*)")\<close>\<close>

definition pdb_cached_re :: "rx list" where
  "pdb_cached_re = lits ''Found '' @ [AnyStar] @ lits ''file - placed it in ''
     @ [GOpen, AnyStar, GClose]"

text \<open>
  Line 71: \<^verbatim>\<open>symcache_file = r"c:\symcache\chrome.dll-%s%sv2.symcache" % (guid, age)\<close>,
  where \<^verbatim>\<open>guid\<close> has already lost its dashes (line 69).
\<close>

definition symcache_file_name :: "string \<Rightarrow> string \<Rightarrow> string" where
  "symcache_file_name guid age =
     ''c:'' @ bslash # ''symcache'' @ bslash # ''chrome.dll-'' @ guid @ age @ ''v2.symcache''"

text \<open>
  Lines 65 to 71 for one line of the enumerator's output: the watched-name test, the
  match, and the three values computed from the groups, namely the dash-free
  signature, the age and the path. \<open>None\<close> when the line is not a candidate or does
  not match.
\<close>

definition mentions_chrome :: "string \<Rightarrow> bool" where
  "mentions_chrome line =
     (str_count ''chrome.dll'' line > 0 \<or> str_count ''chrome_child.dll'' line > 0)"

definition parse_reference :: "string \<Rightarrow> (string \<times> string \<times> string) option" where
  "parse_reference line =
     (if mentions_chrome line then
        (case re_match pdb_re line of
           Some [guid, age, path] \<Rightarrow> Some (remove_dashes guid, age, path)
         | _ \<Rightarrow> None)
      else None)"

text \<open>The cache file whose existence line 72 tests for a line, when the line matches.\<close>

definition symcache_file_of_line :: "string \<Rightarrow> string option" where
  "symcache_file_of_line line =
     map_option (\<lambda>(guid, age, path). symcache_file_name guid age) (parse_reference line)"

section \<open>The process and its surroundings\<close>

text \<open>
  An exception that nothing catches ends the process. \<^verbatim>\<open>sys.exit(n)\<close> raises
  \<^verbatim>\<open>SystemExit\<close>, which the interpreter turns into exit status \<open>n\<close>; any other
  uncaught exception prints a traceback and gives exit status 1. The script has no
  \<^verbatim>\<open>try\<close> statement, so every exception is uncaught.
\<close>

datatype pyexn =
    SystemExit int
  | NameError string
  | AttributeError string
  | IndexError
  | OSError string

text \<open>
  The values a module-level name of interest can hold: a string, a list of strings, or
  some other object (a module, a function).
\<close>

datatype pyval = PStr string | PList "string list" | PObject

datatype event =
    Popen string
  | Copy2 string string
  | Rename string string
  | Mkdtemp string
  | Rmtree string

text \<open>
  The state the script reads and writes: which paths exist (\<^verbatim>\<open>os.path.exists\<close>),
  the environment variable \<^verbatim>\<open>_NT_SYMBOL_PATH\<close>, the module's global namespace, the
  lines printed so far, the calls made to the operating system so far, and how many
  temporary directories have been made.
\<close>

record world =
  files :: "string set"
  symbol_path :: "string option"
  globals :: "string \<rightharpoonup> pyval"
  stdout :: "string list"
  events :: "event list"
  temp_count :: nat

text \<open>
  What the script calls and the repository does not contain: \<^verbatim>\<open>os.path.join\<close>,
  \<^verbatim>\<open>os.path.split\<close>, \<^verbatim>\<open>os.path.normpath\<close>, the name
  \<^verbatim>\<open>tempfile.mkdtemp\<close> picks, \<^verbatim>\<open>str()\<close> of a value that is not a string, the
  characters that \<^verbatim>\<open>str.strip\<close> takes for whitespace (Python 2 and Python 3 differ
  on them), the paths that \<^verbatim>\<open>shutil.rmtree\<close> leaves behind, and the external
  programs run through \<^verbatim>\<open>os.popen\<close>. A program is given its command line, the
  symbol path and the existing paths, and answers with its output lines and the paths
  existing afterwards.
\<close>

record platform =
  path_join :: "string list \<Rightarrow> string"
  path_split :: "string \<Rightarrow> string \<times> string"
  normpath :: "string \<Rightarrow> string"
  mkdtemp_name :: "nat \<Rightarrow> string"
  str_other :: "pyval \<Rightarrow> string"
  strip_space :: "char \<Rightarrow> bool"
  rmtree_left :: "string \<Rightarrow> string set \<Rightarrow> string set"
  shell :: "string \<Rightarrow> string option \<Rightarrow> string set \<Rightarrow> string list \<times> string set"

text \<open>\<^verbatim>\<open>s.strip()\<close> removes leading and trailing whitespace.\<close>

definition py_strip :: "platform \<Rightarrow> string \<Rightarrow> string" where
  "py_strip P s = rev (dropWhile (strip_space P) (rev (dropWhile (strip_space P) s)))"

type_synonym 'a prog = "world \<Rightarrow> (pyexn + 'a) \<times> world"

definition ret :: "'a \<Rightarrow> 'a prog" where
  "ret a = (\<lambda>w. (Inr a, w))"

definition seq :: "'a prog \<Rightarrow> ('a \<Rightarrow> 'b prog) \<Rightarrow> 'b prog" where
  "seq m f = (\<lambda>w. case m w of (Inl e, w') \<Rightarrow> (Inl e, w') | (Inr a, w') \<Rightarrow> f a w')"

definition exit_status :: "pyexn + 'a \<Rightarrow> int" where
  "exit_status r = (case r of Inr _ \<Rightarrow> 0 | Inl (SystemExit n) \<Rightarrow> n | Inl _ \<Rightarrow> 1)"

definition print_line :: "string \<Rightarrow> world \<Rightarrow> world" where
  "print_line s w = w\<lparr>stdout := stdout w @ [s]\<rparr>"

definition py_print :: "string \<Rightarrow> unit prog" where
  "py_print s = (\<lambda>w. (Inr (), print_line s w))"

definition path_exists :: "string \<Rightarrow> world \<Rightarrow> bool" where
  "path_exists p w = (p \<in> files w)"

text \<open>\<^verbatim>\<open>os.popen(command)\<close>, read to its end.\<close>

definition popen :: "platform \<Rightarrow> string \<Rightarrow> string list prog" where
  "popen P command = (\<lambda>w.
     case shell P command (symbol_path w) (files w) of
       (out, fs) \<Rightarrow> (Inr out, w\<lparr>files := fs, events := events w @ [Popen command]\<rparr>))"

text \<open>
  \<^verbatim>\<open>shutil.copy2(source, dest)\<close> raises when the source is missing.
  \<^verbatim>\<open>os.rename(src, dst)\<close> on Windows raises when the source is missing or the
  destination exists. \<^verbatim>\<open>shutil.rmtree(d, ignore_errors=True)\<close> never raises: a
  removal that fails is passed over in silence, so what is left of the tree is the
  platform's answer.
\<close>

definition copy2 :: "string \<Rightarrow> string \<Rightarrow> unit prog" where
  "copy2 source dest = (\<lambda>w.
     if source \<in> files w
     then (Inr (), w\<lparr>files := insert dest (files w), events := events w @ [Copy2 source dest]\<rparr>)
     else (Inl (OSError source), w))"

definition os_rename :: "string \<Rightarrow> string \<Rightarrow> unit prog" where
  "os_rename src dst = (\<lambda>w.
     if src \<notin> files w then (Inl (OSError src), w)
     else if dst \<in> files w then (Inl (OSError dst), w)
     else (Inr (), w\<lparr>files := insert dst (files w - {src}),
                      events := events w @ [Rename src dst]\<rparr>))"

definition rmtree :: "platform \<Rightarrow> string \<Rightarrow> world \<Rightarrow> world" where
  "rmtree P d w = w\<lparr>files := rmtree_left P d (files w), events := events w @ [Rmtree d]\<rparr>"

definition mkdtemp :: "platform \<Rightarrow> string prog" where
  "mkdtemp P = (\<lambda>w.
     let d = mkdtemp_name P (temp_count w)
     in (Inr d, w\<lparr>files := insert d (files w), events := events w @ [Mkdtemp d],
                   temp_count := Suc (temp_count w)\<rparr>))"

text \<open>
  A name that a function body reads without assigning it is looked up in the module's
  globals; a name that is not there raises \<^verbatim>\<open>NameError\<close>. (None of the names below
  is a builtin.) \<^verbatim>\<open>name.append(x)\<close> changes the list object the name is bound to.
  \<^verbatim>\<open>"%s" % name\<close> is the string itself for a string.
\<close>

definition global_append :: "string \<Rightarrow> string \<Rightarrow> unit prog" where
  "global_append name x = (\<lambda>w.
     case globals w name of
       None \<Rightarrow> (Inl (NameError name), w)
     | Some (PList xs) \<Rightarrow> (Inr (), w\<lparr>globals := (globals w)(name \<mapsto> PList (xs @ [x]))\<rparr>)
     | Some _ \<Rightarrow> (Inl (AttributeError ''append''), w))"

definition global_str :: "platform \<Rightarrow> string \<Rightarrow> string prog" where
  "global_str P name = (\<lambda>w.
     case globals w name of
       None \<Rightarrow> (Inl (NameError name), w)
     | Some (PStr s) \<Rightarrow> (Inr s, w)
     | Some v \<Rightarrow> (Inr (str_other P v), w))"

text \<open>
  The names the module binds at its top level: the six imported modules, the
  \<^verbatim>\<open>__future__\<close> feature and the two functions. Everything else the script names
  is a local variable of \<^verbatim>\<open>main\<close> or of \<^verbatim>\<open>run_and_look_for_matches\<close>.
\<close>

definition module_globals :: "string \<rightharpoonup> pyval" where
  "module_globals = map_of
     [(''print_function'', PObject), (''os'', PObject), (''sys'', PObject), (''re'', PObject),
      (''tempfile'', PObject), (''shutil'', PObject), (''subprocess'', PObject),
      (''run_and_look_for_matches'', PObject), (''main'', PObject)]"

section \<open>\<^verbatim>\<open>run_and_look_for_matches\<close>\<close>

text \<open>
  Python's truth value of \<^verbatim>\<open>pdb_cache_path\<close>, which is \<^verbatim>\<open>None\<close> or a string:
  \<^verbatim>\<open>None\<close> and the empty string are false.
\<close>

definition truthy :: "string option \<Rightarrow> bool" where
  "truthy v = (case v of None \<Rightarrow> False | Some s \<Rightarrow> s \<noteq> [])"

text \<open>
  Lines 82 to 86: every line of the retrieval tool's output is stripped and printed;
  the last line that matches \<^verbatim>\<open>pdb_cached_re\<close> gives \<^verbatim>\<open>pdb_cache_path\<close>.
\<close>

fun scan_retrieve_output ::
  "platform \<Rightarrow> string list \<Rightarrow> string option \<Rightarrow> world \<Rightarrow> string option \<times> world" where
  "scan_retrieve_output P [] pdb_cache_path w = (pdb_cache_path, w)"
| "scan_retrieve_output P (subline # rest) pdb_cache_path w =
     (let w' = print_line (py_strip P subline) w
      in case re_match pdb_cached_re (py_strip P subline) of
           Some (g # gs) \<Rightarrow> scan_retrieve_output P rest (Some g) w'
         | _ \<Rightarrow> scan_retrieve_output P rest pdb_cache_path w')"

text \<open>Lines 97 and 98: the stripping tool's output is stripped and printed.\<close>

fun print_stripped :: "platform \<Rightarrow> string list \<Rightarrow> world \<Rightarrow> world" where
  "print_stripped P [] w = w"
| "print_stripped P (copyline # rest) w =
     print_stripped P rest (print_line (py_strip P copyline) w)"

text \<open>Lines 93 to 98: a fresh directory, and the stripping tool run into it.\<close>

definition strip_pdb :: "platform \<Rightarrow> string \<Rightarrow> unit prog" where
  "strip_pdb P pdb_cache_path =
     seq (mkdtemp P) (\<lambda>tempdir.
     seq (global_append ''tempdirs'' tempdir) (\<lambda>_.
     let dest_path = path_join P [tempdir, snd (path_split P pdb_cache_path)] in
     seq (py_print (''Copying PDB to '' @ dest_path)) (\<lambda>_.
     seq (global_str P ''pdbcopy_path'') (\<lambda>pdbcopy_path.
     seq (popen P (pdbcopy_path @ '' '' @ pdb_cache_path @ '' '' @ dest_path @ '' -p''))
       (\<lambda>out w. (Inr (), print_stripped P out w))))))"

text \<open>
  Lines 87 to 91: without a path from the retrieval tool, the path named in the trace
  is taken when it exists, and recorded as a local symbol file.
\<close>

definition local_fallback :: "string \<Rightarrow> string option \<Rightarrow> string option prog" where
  "local_fallback path pdb_cache_path = (\<lambda>w.
     if \<not> truthy pdb_cache_path then
       (if path_exists path w
        then seq (global_append ''local_symbol_files'' path) (\<lambda>_. ret (Some path)) w
        else ret pdb_cache_path w)
     else ret pdb_cache_path w)"

text \<open>
  Lines 76 to 100, the work for one reference whose cache file is missing. \<open>guid\<close> is
  the signature without its dashes.
\<close>

definition handle_uncached :: "platform \<Rightarrow> string \<Rightarrow> string \<Rightarrow> string \<Rightarrow> unit prog" where
  "handle_uncached P guid age path =
     (let filepart = snd (path_split P path) in
      seq (py_print (''Found uncached reference to '' @ filepart @ '': '' @ guid @ '' - '' @ age))
        (\<lambda>_.
      seq (global_append ''symcache_files'' (symcache_file_name guid age)) (\<lambda>_.
      seq (global_str P ''retrieve_path'') (\<lambda>retrieve_path.
      let retrieve_ommand = retrieve_path @ '' '' @ guid @ '' '' @ age @ '' '' @ filepart in
      seq (py_print (''> '' @ retrieve_ommand)) (\<lambda>_.
      seq (popen P retrieve_ommand) (\<lambda>out.
      seq (\<lambda>w. case scan_retrieve_output P out None w of (pcp, w') \<Rightarrow> (Inr pcp, w')) (\<lambda>pcp.
      seq (local_fallback path pcp) (\<lambda>pdb_cache_path.
      case pdb_cache_path of
        None \<Rightarrow> py_print
          ''Failed to retrieve symbols. Check for RetrieveSymbols.exe and support files.''
      | Some p \<Rightarrow>
          if p \<noteq> [] then strip_pdb P p
          else py_print
            ''Failed to retrieve symbols. Check for RetrieveSymbols.exe and support files.''
      ))))))))"

text \<open>
  Lines 64 to 101, the loop over the enumerator's output, with \<^verbatim>\<open>found_uncached\<close>
  as the accumulator. A line that is no candidate, or does not match, or whose cache
  file exists, is passed over.
\<close>

fun scan_lines :: "platform \<Rightarrow> string list \<Rightarrow> bool \<Rightarrow> bool prog" where
  "scan_lines P [] found_uncached w = (Inr found_uncached, w)"
| "scan_lines P (line # rest) found_uncached w =
     (case parse_reference line of
        None \<Rightarrow> scan_lines P rest found_uncached w
      | Some (guid, age, path) \<Rightarrow>
          if path_exists (symcache_file_name guid age) w
          then scan_lines P rest found_uncached w
          else (case handle_uncached P guid age path w of
                  (Inl e, w') \<Rightarrow> (Inl e, w')
                | (Inr _, w') \<Rightarrow> scan_lines P rest True w'))"

definition run_and_look_for_matches :: "platform \<Rightarrow> string \<Rightarrow> bool prog" where
  "run_and_look_for_matches P command =
     seq (popen P command) (\<lambda>command_output. scan_lines P command_output False)"

section \<open>\<^verbatim>\<open>main\<close>\<close>

text \<open>Lines 121 to 126: the support files are copied when \<^verbatim>\<open>os.path.exists\<close> misses them.\<close>

fun copy_support_files :: "platform \<Rightarrow> string \<Rightarrow> string list \<Rightarrow> unit prog" where
  "copy_support_files P script_dir [] w = (Inr (), w)"
| "copy_support_files P script_dir (third_party # rest) w =
     (if \<not> path_exists third_party w then
        (let source = normpath P
               (path_join P [script_dir, ''..'' @ bslash # ''third_party'', third_party]);
             dest = normpath P (path_join P [script_dir, third_party])
         in case copy2 source dest w of
              (Inl e, w') \<Rightarrow> (Inl e, w')
            | (Inr _, w') \<Rightarrow> copy_support_files P script_dir rest w')
      else copy_support_files P script_dir rest w)"

text \<open>Lines 159 to 162 and 169 to 171: the two renaming loops.\<close>

fun rename_away :: "string list \<Rightarrow> unit prog" where
  "rename_away [] w = (Inr (), w)"
| "rename_away (local_pdb # rest) w =
     (let temp_name = local_pdb @ ''x'';
          w1 = print_line (''Renaming '' @ local_pdb @ '' to '' @ temp_name
                 @ '' to stop unstripped PDBs from being used.'') w
      in case os_rename local_pdb temp_name w1 of
           (Inl e, w') \<Rightarrow> (Inl e, w')
         | (Inr _, w') \<Rightarrow> rename_away rest w')"

fun rename_back :: "string list \<Rightarrow> unit prog" where
  "rename_back [] w = (Inr (), w)"
| "rename_back (local_pdb # rest) w =
     (let temp_name = local_pdb @ ''x''
      in case os_rename temp_name local_pdb w of
           (Inl e, w') \<Rightarrow> (Inl e, w')
         | (Inr _, w') \<Rightarrow> rename_back rest w')"

text \<open>Lines 173 to 179: one message per expected cache file, and the error flag.\<close>

fun check_generated :: "string list \<Rightarrow> bool \<Rightarrow> world \<Rightarrow> bool \<times> world" where
  "check_generated [] error w = (error, w)"
| "check_generated (symcache_file # rest) error w =
     (if path_exists symcache_file w
      then check_generated rest error (print_line (symcache_file @ '' generated.'') w)
      else check_generated rest True
             (print_line (''Error: '' @ symcache_file @ '' not generated.'') w))"

fun remove_dirs :: "platform \<Rightarrow> string list \<Rightarrow> world \<Rightarrow> world" where
  "remove_dirs P [] w = w"
| "remove_dirs P (directory # rest) w = remove_dirs P rest (rmtree P directory w)"

text \<open>Lines 173 to 185.\<close>

definition verify_and_cleanup ::
  "platform \<Rightarrow> string list \<Rightarrow> string list \<Rightarrow> unit prog" where
  "verify_and_cleanup P tempdirs symcache_files = (\<lambda>w.
     case check_generated symcache_files False w of
       (error, w1) \<Rightarrow>
         if error
         then (Inr (), print_line ''Retaining PDBs to allow rerunning xperf command-line.'' w1)
         else (Inr (), remove_dirs P tempdirs w1))"

text \<open>\<^verbatim>\<open>";".join(tempdirs)\<close>\<close>

fun join_semicolon :: "string list \<Rightarrow> string" where
  "join_semicolon [] = []"
| "join_semicolon [d] = d"
| "join_semicolon (d # e # ds) = d @ '';'' @ join_semicolon (e # ds)"

definition gen_command :: "string \<Rightarrow> string" where
  "gen_command tracename =
     ''xperf -i '' @ dquote # tracename @ dquote # '' -symbols -tle -tti -a symcache -build''"

text \<open>
  Lines 156 to 171: the symbol path is pointed at the temporary directories, the local
  symbol files are renamed, the enumerator is run in build mode with its output
  dropped, and the local symbol files are renamed back.
\<close>

definition rename_and_build ::
  "platform \<Rightarrow> string \<Rightarrow> string list \<Rightarrow> string list \<Rightarrow> unit prog" where
  "rename_and_build P tracename tempdirs local_symbol_files =
     (let symbol_path = join_semicolon tempdirs in
      seq (py_print (''Stripped PDBs are in '' @ symbol_path
             @ ''. Converting to symcache files now.'')) (\<lambda>_.
      seq (\<lambda>w. (Inr (), w\<lparr>symbol_path := Some symbol_path\<rparr>)) (\<lambda>_.
      seq (rename_away local_symbol_files) (\<lambda>_.
      seq (py_print (''> '' @ gen_command tracename)) (\<lambda>_.
      seq (popen P (gen_command tracename)) (\<lambda>_.
      rename_back local_symbol_files))))))"

text \<open>Lines 156 to 185, the branch taken when \<^verbatim>\<open>tempdirs\<close> is not empty.\<close>

definition rebuild_symcache ::
  "platform \<Rightarrow> string \<Rightarrow> string list \<Rightarrow> string list \<Rightarrow> string list \<Rightarrow> unit prog" where
  "rebuild_symcache P tracename tempdirs local_symbol_files symcache_files =
     seq (rename_and_build P tracename tempdirs local_symbol_files) (\<lambda>_.
          verify_and_cleanup P tempdirs symcache_files)"

text \<open>Lines 155 to 190.\<close>

definition finish ::
  "platform \<Rightarrow> string \<Rightarrow> string list \<Rightarrow> string list \<Rightarrow> string list \<Rightarrow> bool \<Rightarrow> unit prog" where
  "finish P tracename tempdirs local_symbol_files symcache_files found_uncached =
     (if tempdirs \<noteq> []
      then rebuild_symcache P tracename tempdirs local_symbol_files symcache_files
      else if found_uncached then py_print ''No PDBs copied, nothing to do.''
      else py_print ''No uncached PDBS found, nothing to do.'')"

definition scan_command :: "string \<Rightarrow> string" where
  "scan_command tracename =
     ''xperf -i '' @ dquote # tracename @ dquote # '' -tle -tti -a symcache -dbgid''"

text \<open>
  \<^verbatim>\<open>main\<close>, with \<^verbatim>\<open>sys.argv\<close> as \<open>argv\<close>. The three lists are local variables
  of \<^verbatim>\<open>main\<close>; \<^verbatim>\<open>run_and_look_for_matches\<close> is given the command only, so they
  are still empty at line 155.
\<close>

definition main :: "platform \<Rightarrow> string list \<Rightarrow> unit prog" where
  "main P argv = (\<lambda>w.
     if length argv < 2 then
       (case argv of
          [] \<Rightarrow> (Inl IndexError, w)
        | a0 # _ \<Rightarrow> (Inl (SystemExit 0), print_line (''Usage: '' @ a0 @ '' trace.etl'') w))
     else
       let symbol_path = (case symbol_path w of None \<Rightarrow> [] | Some s \<Rightarrow> s) in
       if str_count ''chromium-browser-symsrv'' symbol_path = 0 then
         (Inl (SystemExit 0), print_line
            ''Chromium symbol server is not in _NT_SYMBOL_PATH. No symbol stripping needed.'' w)
       else
         let script_dir = fst (path_split P (argv ! 0));
             retrieve_path = path_join P [script_dir, ''RetrieveSymbols.exe''];
             pdbcopy_path = path_join P [script_dir, ''pdbcopy.exe'']
         in case copy_support_files P script_dir
                   [''pdbcopy.exe'', ''dbghelp.dll'', ''symsrv.dll''] w of
              (Inl e, w1) \<Rightarrow> (Inl e, w1)
            | (Inr _, w1) \<Rightarrow>
                if \<not> path_exists pdbcopy_path w1 then
                  (Inl (SystemExit 0), print_line
                     ''pdbcopy.exe not found. No symbol stripping is possible.'' w1)
                else if \<not> path_exists retrieve_path w1 then
                  (Inl (SystemExit 0), print_line
                     ''RetrieveSymbols.exe not found. No symbol retrieval is possible.'' w1)
                else
                  let tracename = argv ! 1;
                      tempdirs = [];
                      w2 = print_line (''Pre-translating chrome symbols from stripped PDBs ''
                             @ ''to avoid 10-15 minute translation times.'') w1;
                      symcache_files = [];
                      local_symbol_files = [];
                      command = scan_command tracename;
                      w3 = print_line (''> '' @ command) w2
                  in (case run_and_look_for_matches P command w3 of
                        (Inl e, w4) \<Rightarrow> (Inl e, w4)
                      | (Inr found_uncached, w4) \<Rightarrow>
                          finish P tracename tempdirs local_symbol_files symcache_files
                            found_uncached w4))"

section \<open>A concrete machine\<close>

text \<open>
  For running the model, the path functions are those of \<^verbatim>\<open>ntpath\<close> in Python 2.7
  for paths with at most a drive letter in front; UNC prefixes are not treated.
  Whitespace is the six ASCII blanks of Python 2, \<^verbatim>\<open>rmtree\<close> removes the whole
  tree, and temporary directories are named \<^verbatim>\<open>tmp\<close>, \<^verbatim>\<open>tmpx\<close>, and so on.
\<close>

definition is_sep :: "char \<Rightarrow> bool" where
  "is_sep c = (c = bslash \<or> c = CHR ''/'')"

definition split_drive :: "string \<Rightarrow> string \<times> string" where
  "split_drive p =
     (if 2 \<le> length p \<and> p ! 1 = CHR '':'' then (take 2 p, drop 2 p) else ([], p))"

definition simple_split :: "string \<Rightarrow> string \<times> string" where
  "simple_split p =
     (case split_drive p of
        (drive, r) \<Rightarrow>
          let head = rev (dropWhile (\<lambda>c. \<not> is_sep c) (rev r));
              tail = rev (takeWhile (\<lambda>c. \<not> is_sep c) (rev r))
          in (drive @ (if list_all is_sep head then head else rev (dropWhile is_sep (rev head))),
              tail))"

definition lower :: "char \<Rightarrow> char" where
  "lower c =
     (case map_of (zip ''ABCDEFGHIJKLMNOPQRSTUVWXYZ'' ''abcdefghijklmnopqrstuvwxyz'') c of
        None \<Rightarrow> c
      | Some l \<Rightarrow> l)"

fun join_step :: "string \<times> string \<Rightarrow> string \<Rightarrow> string \<times> string" where
  "join_step (result_drive, result_path) p =
     (case split_drive p of
        (p_drive, p_path) \<Rightarrow>
          if p_path \<noteq> [] \<and> is_sep (hd p_path) then
            (if p_drive \<noteq> [] \<or> result_drive = [] then p_drive else result_drive, p_path)
          else if p_drive \<noteq> [] \<and> p_drive \<noteq> result_drive
                  \<and> map lower p_drive \<noteq> map lower result_drive then
            (p_drive, p_path)
          else
            (if p_drive \<noteq> [] \<and> p_drive \<noteq> result_drive then p_drive else result_drive,
             (if result_path \<noteq> [] \<and> \<not> is_sep (last result_path)
              then result_path @ [bslash] else result_path) @ p_path))"

definition simple_join :: "string list \<Rightarrow> string" where
  "simple_join ps =
     (case ps of
        [] \<Rightarrow> []
      | a # rest \<Rightarrow> (case foldl join_step (split_drive a) rest of (d, r) \<Rightarrow> d @ r))"

fun split_comps :: "string \<Rightarrow> string list" where
  "split_comps [] = [[]]"
| "split_comps (c # cs) =
     (if c = bslash then [] # split_comps cs
      else (case split_comps cs of [] \<Rightarrow> [[c]] | x # xs \<Rightarrow> (c # x) # xs))"

fun norm_step :: "bool \<Rightarrow> string list \<Rightarrow> string \<Rightarrow> string list" where
  "norm_step rooted out c =
     (if c = [] \<or> c = ''.'' then out
      else if c = ''..'' then
        (case out of
           [] \<Rightarrow> if rooted then [] else [c]
         | d # ds \<Rightarrow> if d \<noteq> ''..'' then ds else c # out)
      else c # out)"

fun join_bslash :: "string list \<Rightarrow> string" where
  "join_bslash [] = []"
| "join_bslash [c] = c"
| "join_bslash (c # d # cs) = c @ bslash # join_bslash (d # cs)"

definition simple_normpath :: "string \<Rightarrow> string" where
  "simple_normpath p =
     (case split_drive (map (\<lambda>c. if c = CHR ''/'' then bslash else c) p) of
        (drive, r) \<Rightarrow>
          let rooted = (r \<noteq> [] \<and> hd r = bslash);
              comps = rev (foldl (norm_step rooted) []
                             (split_comps (dropWhile (\<lambda>c. c = bslash) r)))
          in if \<not> rooted \<and> drive = [] \<and> comps = [] then ''.''
             else drive @ (if rooted then [bslash] else []) @ join_bslash comps)"

definition ascii_space :: "char \<Rightarrow> bool" where
  "ascii_space c = (c \<in> set [CHR '' '', CHR 0x09, CHR 0x0A, CHR 0x0B, CHR 0x0C, CHR 0x0D])"

definition inside :: "string \<Rightarrow> string \<Rightarrow> bool" where
  "inside d p = (p = d \<or> prefix (d @ [bslash]) p \<or> prefix (d @ ''/'') p)"

definition quiet_shell :: "string \<Rightarrow> string option \<Rightarrow> string set \<Rightarrow> string list \<times> string set" where
  "quiet_shell command sp fs = ([], fs)"

definition simple_platform :: platform where
  "simple_platform =
     \<lparr>path_join = simple_join, path_split = simple_split, normpath = simple_normpath,
      mkdtemp_name = (\<lambda>n. ''tmp'' @ replicate n CHR ''x''),
      str_other = (\<lambda>v. ''<object>''), strip_space = ascii_space,
      rmtree_left = (\<lambda>d fs. Set.filter (\<lambda>p. \<not> inside d p) fs),
      shell = quiet_shell\<rparr>"

definition sample_argv :: "string list" where
  "sample_argv = [''StripChromeSymbols.py'', ''trace.etl'']"

text \<open>
  A freshly started process in a directory that holds the script's tools: nothing
  printed yet, the Chromium symbol server in the symbol path, the module's globals.
\<close>

definition tool_files :: "string set" where
  "tool_files = set [''pdbcopy.exe'', ''dbghelp.dll'', ''symsrv.dll'', ''RetrieveSymbols.exe'']"

definition start_world :: "string set \<Rightarrow> world" where
  "start_world fs =
     \<lparr>files = fs, symbol_path = Some ''SRV*c:/symbols*https://chromium-browser-symsrv.commondatastorage.googleapis.com'',
      globals = module_globals, stdout = [], events = [], temp_count = 0\<rparr>"

text \<open>The line of the specification's example, and one for \<^verbatim>\<open>chrome_child.dll\<close>.\<close>

definition sample_line :: string where
  "sample_line = dquote # ''[RSDS] PdbSig: {AAAAAAAA-BBBB-CCCC-DDDD-EEEEEEEEEEEE}; Age: 3; Pdb: C:''
     @ bslash # ''x'' @ bslash # ''chrome.dll.pdb'' @ [dquote]"

definition child_line :: string where
  "child_line = dquote # ''[RSDS] PdbSig: {be90dbc6-fe31-4842-9c72-7e2ea88f0adf}; Age: 1; Pdb: C:''
     @ bslash # ''b'' @ bslash # ''chrome_child.dll.pdb'' @ [dquote, newline]"

text \<open>
  An enumerator that prints the given lines for the scan of \<^verbatim>\<open>trace.etl\<close>; every
  other program prints nothing. No program touches a file.
\<close>

definition scan_shell ::
  "string list \<Rightarrow> string \<Rightarrow> string option \<Rightarrow> string set \<Rightarrow> string list \<times> string set" where
  "scan_shell ls command sp fs =
     (if command = scan_command ''trace.etl'' then (ls, fs) else ([], fs))"

text \<open>The enumerator prints the example line; its cache file.\<close>

definition sample_platform :: platform where
  "sample_platform = simple_platform\<lparr>shell := scan_shell [sample_line]\<rparr>"

definition sample_cache_file :: string where
  "sample_cache_file = ''c:'' @ bslash # ''symcache'' @ bslash
     # ''chrome.dll-AAAAAAAABBBBCCCCDDDDEEEEEEEEEEEE3v2.symcache''"

text \<open>A line of the enumerator for a binary that is not watched.\<close>

definition ntdll_line :: string where
  "ntdll_line = dquote # ''[RSDS] PdbSig: {1d2a3b4c-0000-1111-2222-333344445555}; Age: 2; Pdb: ntdll.pdb''
     @ [dquote, newline]"

text \<open>A program that never ends the process through \<^verbatim>\<open>sys.exit\<close>.\<close>

definition no_exit :: "'a prog \<Rightarrow> bool" where
  "no_exit m = (\<forall>w n. fst (m w) \<noteq> Inl (SystemExit n))"

text \<open>
  The script started from the directory above its own, which holds copies of the three
  support files; the script's directory \<^verbatim>\<open>bin\<close> holds only the retrieval tool.
\<close>

definition parent_argv :: "string list" where
  "parent_argv = [''bin'' @ bslash # ''StripChromeSymbols.py'', ''trace.etl'']"

definition parent_files :: "string set" where
  "parent_files = set [''pdbcopy.exe'', ''dbghelp.dll'', ''symsrv.dll'',
     ''third_party'' @ bslash # ''pdbcopy.exe'', ''bin'' @ bslash # ''RetrieveSymbols.exe'']"






text \<open>
  The enumerator prints the line for \<^verbatim>\<open>chrome_child.dll\<close>; the cache file of that
  reference under the name the script computes, and under the name of the binary.
\<close>

definition child_platform :: platform where
  "child_platform = simple_platform\<lparr>shell := scan_shell [child_line]\<rparr>"

definition chrome_dll_cache :: string where
  "chrome_dll_cache = ''c:'' @ bslash # ''symcache'' @ bslash
     # ''chrome.dll-be90dbc6fe3148429c727e2ea88f0adf1v2.symcache''"

definition chrome_child_cache :: string where
  "chrome_child_cache = ''c:'' @ bslash # ''symcache'' @ bslash
     # ''chrome_child.dll-be90dbc6fe3148429c727e2ea88f0adf1v2.symcache''"

section \<open>Properties of the scan\<close>

lemma start_world_fields:
  "files (start_world fs) = fs"
  "globals (start_world fs) = module_globals"
  "stdout (start_world fs) = []"
  "events (start_world fs) = []"
  "temp_count (start_world fs) = 0"
  by (simp_all add: start_world_def)

lemma sample_line_groups:
  "re_match pdb_re sample_line = Some [''AAAAAAAA-BBBB-CCCC-DDDD-EEEEEEEEEEEE'', ''3'',
      ''C:'' @ bslash # ''x'' @ bslash # ''chrome.dll.pdb'']"
  by (simp add: re_match_def pdb_re_def lits_def sample_line_def dquote_def bslash_def
      newline_def)

lemma sample_line_mentions: "mentions_chrome sample_line"
  by (simp add: mentions_chrome_def sample_line_def dquote_def bslash_def)

lemma sample_line_parsed:
  "parse_reference sample_line =
     Some (''AAAAAAAABBBBCCCCDDDDEEEEEEEEEEEE'', ''3'',
           ''C:'' @ bslash # ''x'' @ bslash # ''chrome.dll.pdb'')"
  by (simp add: parse_reference_def sample_line_groups sample_line_mentions remove_dashes_def)

lemma parse_reference_groups:
  assumes "mentions_chrome line" and "re_match pdb_re line = Some [guid, age, path]"
  shows "parse_reference line = Some (remove_dashes guid, age, path)"
  using assms by (simp add: parse_reference_def)

text \<open>
  C3. The scan line of the specification's example gives the cache file name
  \<^verbatim>\<open>c:\symcache\chrome.dll-AAAAAAAABBBBCCCCDDDDEEEEEEEEEEEE3v2.symcache\<close>. In
  general, for a line that mentions a watched name and matches with the groups
  signature, age and path, the name is the fixed prefix, the signature without its
  dashes, the age as it stands, and the fixed suffix: nothing but the dashes is
  changed.
\<close>

theorem sample_line_cache_name:
  "symcache_file_of_line sample_line =
     Some (''c:'' @ bslash # ''symcache'' @ bslash
             # ''chrome.dll-AAAAAAAABBBBCCCCDDDDEEEEEEEEEEEE3v2.symcache'')
   \<and> (mentions_chrome line \<and> re_match pdb_re line = Some [guid, age, path] \<longrightarrow>
        symcache_file_of_line line =
          Some (''c:'' @ bslash # ''symcache'' @ bslash # ''chrome.dll-''
                  @ filter (\<lambda>c. c \<noteq> CHR ''-'') guid @ age @ ''v2.symcache''))"
proof
  show "symcache_file_of_line sample_line =
     Some (''c:'' @ bslash # ''symcache'' @ bslash
             # ''chrome.dll-AAAAAAAABBBBCCCCDDDDEEEEEEEEEEEE3v2.symcache'')"
    by (simp add: symcache_file_of_line_def sample_line_parsed symcache_file_name_def)
next
  show "mentions_chrome line \<and> re_match pdb_re line = Some [guid, age, path] \<longrightarrow>
        symcache_file_of_line line =
          Some (''c:'' @ bslash # ''symcache'' @ bslash # ''chrome.dll-''
                  @ filter (\<lambda>c. c \<noteq> CHR ''-'') guid @ age @ ''v2.symcache'')"
    by (simp add: symcache_file_of_line_def parse_reference_groups symcache_file_name_def
        remove_dashes_def)
qed

theorem sample_line_cache_name_witness:
  "mentions_chrome sample_line
   \<and> re_match pdb_re sample_line = Some [''AAAAAAAA-BBBB-CCCC-DDDD-EEEEEEEEEEEE'', ''3'',
        ''C:'' @ bslash # ''x'' @ bslash # ''chrome.dll.pdb'']
   \<and> symcache_file_of_line sample_line =
        Some (''c:'' @ bslash # ''symcache'' @ bslash # ''chrome.dll-''
                @ ''AAAAAAAABBBBCCCCDDDDEEEEEEEEEEEE'' @ ''3'' @ ''v2.symcache'')"
  using sample_line_cache_name [of sample_line "''AAAAAAAA-BBBB-CCCC-DDDD-EEEEEEEEEEEE''" "''3''"
      "''C:'' @ bslash # ''x'' @ bslash # ''chrome.dll.pdb''"]
    sample_line_groups sample_line_mentions
  by simp

lemma print_line_fields [simp]:
  "files (print_line s w) = files w"
  "symbol_path (print_line s w) = symbol_path w"
  "globals (print_line s w) = globals w"
  "events (print_line s w) = events w"
  "temp_count (print_line s w) = temp_count w"
  "stdout (print_line s w) = stdout w @ [s]"
  by (simp_all add: print_line_def)

lemma path_exists_print_line [simp]: "path_exists p (print_line s w) = path_exists p w"
  by (simp add: path_exists_def)

lemma scan_lines_all_cached:
  assumes "\<forall>line\<in>set ls. \<forall>g a p. parse_reference line = Some (g, a, p)
             \<longrightarrow> path_exists (symcache_file_name g a) w"
  shows "scan_lines P ls found w = (Inr found, w)"
  using assms by (induction ls) (auto split: option.splits)

lemma handle_uncached_unbound:
  assumes "globals w ''symcache_files'' = None"
  shows "handle_uncached P guid age path w =
           (Inl (NameError ''symcache_files''),
            print_line (''Found uncached reference to '' @ snd (path_split P path) @ '': ''
                          @ guid @ '' - '' @ age) w)"
  using assms
  by (simp add: handle_uncached_def Let_def seq_def py_print_def global_append_def)

lemma module_globals_unbound:
  "module_globals ''symcache_files'' = None"
  "module_globals ''local_symbol_files'' = None"
  "module_globals ''tempdirs'' = None"
  "module_globals ''retrieve_path'' = None"
  "module_globals ''pdbcopy_path'' = None"
  by (simp_all add: module_globals_def)

lemma scan_lines_uncached_unbound:
  assumes "globals w ''symcache_files'' = None"
    and "line \<in> set ls"
    and "parse_reference line = Some (guid, age, path)"
    and "\<not> path_exists (symcache_file_name guid age) w"
  shows "\<exists>msg. scan_lines P ls found w =
           (Inl (NameError ''symcache_files''), print_line msg w)"
  using assms(2)
proof (induction ls)
  case Nil
  then show ?case by simp
next
  case (Cons l ls)
  show ?case
  proof (cases "parse_reference l")
    case None
    with Cons assms(3) show ?thesis by auto
  next
    case (Some r)
    obtain g a p where r: "r = (g, a, p)" by (cases r)
    show ?thesis
    proof (cases "path_exists (symcache_file_name g a) w")
      case True
      with Some r assms(3,4) Cons show ?thesis by auto
    next
      case False
      have "\<exists>msg. handle_uncached P g a p w =
              (Inl (NameError ''symcache_files''), print_line msg w)"
        unfolding handle_uncached_unbound [OF assms(1)] by blast
      with Some r False show ?thesis
        by auto
    qed
  qed
qed

lemma copy_support_files_present:
  assumes "\<forall>f\<in>set fs. path_exists f w"
  shows "copy_support_files P script_dir fs w = (Inr (), w)"
  using assms by (induction fs) simp_all

lemma main_scan:
  assumes "2 \<le> length argv"
    and "str_count ''chromium-browser-symsrv''
           (case symbol_path w of None \<Rightarrow> [] | Some s \<Rightarrow> s) \<noteq> 0"
    and "fst (path_split P (argv ! 0)) = script_dir"
    and "argv ! 1 = tracename"
    and "copy_support_files P script_dir
           [''pdbcopy.exe'', ''dbghelp.dll'', ''symsrv.dll''] w = (Inr (), w1)"
    and "path_exists (path_join P [script_dir, ''pdbcopy.exe'']) w1"
    and "path_exists (path_join P [script_dir, ''RetrieveSymbols.exe'']) w1"
  shows "main P argv w =
    (case run_and_look_for_matches P (scan_command tracename)
            (print_line (''> '' @ scan_command tracename)
              (print_line (''Pre-translating chrome symbols from stripped PDBs ''
                             @ ''to avoid 10-15 minute translation times.'') w1)) of
       (Inl e, w4) \<Rightarrow> (Inl e, w4)
     | (Inr found_uncached, w4) \<Rightarrow> finish P tracename [] [] [] found_uncached w4)"
  using assms by (simp add: main_def Let_def del: One_nat_def copy_support_files.simps)

lemma sample_preflight:
  "2 \<le> length sample_argv"
  "sample_argv ! 1 = ''trace.etl''"
  "str_count ''chromium-browser-symsrv''
     (case symbol_path (start_world fs) of None \<Rightarrow> [] | Some s \<Rightarrow> s) \<noteq> 0"
  "fst (simple_split (sample_argv ! 0)) = []"
  "simple_join [[], ''pdbcopy.exe''] = ''pdbcopy.exe''"
  "simple_join [[], ''RetrieveSymbols.exe''] = ''RetrieveSymbols.exe''"
  by (simp_all add: sample_argv_def start_world_def simple_split_def split_drive_def simple_join_def simple_normpath_def Let_def is_sep_def
      bslash_def)

lemma tool_files_present:
  "tool_files \<subseteq> fs \<Longrightarrow>
     \<forall>f\<in>set [''pdbcopy.exe'', ''dbghelp.dll'', ''symsrv.dll'']. path_exists f (start_world fs)"
  "tool_files \<subseteq> fs \<Longrightarrow> path_exists ''pdbcopy.exe'' (start_world fs)"
  "tool_files \<subseteq> fs \<Longrightarrow> path_exists ''RetrieveSymbols.exe'' (start_world fs)"
  by (auto simp add: tool_files_def path_exists_def start_world_def)

lemma sample_main_scan:
  assumes "tool_files \<subseteq> fs"
    and "path_join P = simple_join" and "path_split P = simple_split"
  shows "main P sample_argv (start_world fs) =
    (case run_and_look_for_matches P (scan_command ''trace.etl'')
            (print_line (''> '' @ scan_command ''trace.etl'')
              (print_line (''Pre-translating chrome symbols from stripped PDBs ''
                             @ ''to avoid 10-15 minute translation times.'') (start_world fs))) of
       (Inl e, w4) \<Rightarrow> (Inl e, w4)
     | (Inr found_uncached, w4) \<Rightarrow> finish P ''trace.etl'' [] [] [] found_uncached w4)"
proof (rule main_scan [where script_dir = "[]"])
  show "copy_support_files P []
           [''pdbcopy.exe'', ''dbghelp.dll'', ''symsrv.dll''] (start_world fs)
         = (Inr (), start_world fs)"
    by (rule copy_support_files_present) (rule tool_files_present(1) [OF assms(1)])
qed (simp_all add: assms(2,3) sample_preflight tool_files_present(2,3) [OF assms(1)]
      del: One_nat_def)


lemma sample_shell:
  "shell sample_platform (scan_command ''trace.etl'') sp fs = ([sample_line], fs)"
  by (simp add: sample_platform_def simple_platform_def scan_shell_def)

lemma sample_cache_file_eq:
  "symcache_file_name ''AAAAAAAABBBBCCCCDDDDEEEEEEEEEEEE'' ''3'' = sample_cache_file"
  by (simp add: symcache_file_name_def sample_cache_file_def)

lemma sample_cache_file_not_tool: "sample_cache_file \<notin> tool_files"
  by (simp add: sample_cache_file_def tool_files_def)

text \<open>
  C4. A matching reference whose cache file exists is passed over: the loop goes on
  with the next line, the state untouched and the flag as it was. When every matching
  line of the enumerator's output has its cache file, \<^verbatim>\<open>run_and_look_for_matches\<close>
  returns \<open>False\<close> and the only call it has made is the enumerator itself: no
  retrieval, no temporary directory, no stripping, whatever the globals are. A whole
  run of the program on such a trace, after a preflight that passed, makes that one
  call, prints that nothing is to be done and ends normally.
\<close>

theorem cached_references_are_skipped:
  "(parse_reference line = Some (guid, age, path)
      \<and> path_exists (symcache_file_name guid age) w
    \<longrightarrow> scan_lines P (line # rest) found w = scan_lines P rest found w)
   \<and> (shell P command (symbol_path w) (files w) = (out, fs)
      \<and> (\<forall>l\<in>set out. \<forall>g a p. parse_reference l = Some (g, a, p)
            \<longrightarrow> symcache_file_name g a \<in> fs)
    \<longrightarrow> run_and_look_for_matches P command w =
          (Inr False, w\<lparr>files := fs, events := events w @ [Popen command]\<rparr>))
   \<and> (2 \<le> length argv
      \<and> str_count ''chromium-browser-symsrv''
           (case symbol_path w0 of None \<Rightarrow> [] | Some s \<Rightarrow> s) \<noteq> 0
      \<and> copy_support_files P (fst (path_split P (argv ! 0)))
           [''pdbcopy.exe'', ''dbghelp.dll'', ''symsrv.dll''] w0 = (Inr (), w1)
      \<and> path_exists (path_join P [fst (path_split P (argv ! 0)), ''pdbcopy.exe'']) w1
      \<and> path_exists (path_join P [fst (path_split P (argv ! 0)), ''RetrieveSymbols.exe'']) w1
      \<and> shell P (scan_command (argv ! 1)) (symbol_path w1) (files w1) = (out, fs)
      \<and> (\<forall>l\<in>set out. \<forall>g a p. parse_reference l = Some (g, a, p)
            \<longrightarrow> symcache_file_name g a \<in> fs)
    \<longrightarrow> main P argv w0 =
          (Inr (), w1\<lparr>files := fs,
                       stdout := stdout w1 @
                         [''Pre-translating chrome symbols from stripped PDBs ''
                            @ ''to avoid 10-15 minute translation times.'',
                          ''> '' @ scan_command (argv ! 1),
                          ''No uncached PDBS found, nothing to do.''],
                       events := events w1 @ [Popen (scan_command (argv ! 1))]\<rparr>))"
proof (intro conjI impI)
  assume "parse_reference line = Some (guid, age, path)
      \<and> path_exists (symcache_file_name guid age) w"
  then show "scan_lines P (line # rest) found w = scan_lines P rest found w"
    by simp
next
  assume a: "shell P command (symbol_path w) (files w) = (out, fs)
      \<and> (\<forall>l\<in>set out. \<forall>g a p. parse_reference l = Some (g, a, p)
            \<longrightarrow> symcache_file_name g a \<in> fs)"
  let ?w = "w\<lparr>files := fs, events := events w @ [Popen command]\<rparr>"
  from a have "\<forall>l\<in>set out. \<forall>g a p. parse_reference l = Some (g, a, p)
             \<longrightarrow> path_exists (symcache_file_name g a) ?w"
    by (simp add: path_exists_def)
  then have "scan_lines P out False ?w = (Inr False, ?w)"
    by (rule scan_lines_all_cached)
  with a show "run_and_look_for_matches P command w = (Inr False, ?w)"
    by (simp add: run_and_look_for_matches_def seq_def popen_def)
next
  let ?cmd = "scan_command (argv ! 1)"
  let ?w3 = "print_line (''> '' @ ?cmd)
              (print_line (''Pre-translating chrome symbols from stripped PDBs ''
                             @ ''to avoid 10-15 minute translation times.'') w1)"
  let ?w4 = "?w3\<lparr>files := fs, events := events ?w3 @ [Popen ?cmd]\<rparr>"
  assume a: "2 \<le> length argv
      \<and> str_count ''chromium-browser-symsrv''
           (case symbol_path w0 of None \<Rightarrow> [] | Some s \<Rightarrow> s) \<noteq> 0
      \<and> copy_support_files P (fst (path_split P (argv ! 0)))
           [''pdbcopy.exe'', ''dbghelp.dll'', ''symsrv.dll''] w0 = (Inr (), w1)
      \<and> path_exists (path_join P [fst (path_split P (argv ! 0)), ''pdbcopy.exe'']) w1
      \<and> path_exists (path_join P [fst (path_split P (argv ! 0)), ''RetrieveSymbols.exe'']) w1
      \<and> shell P (scan_command (argv ! 1)) (symbol_path w1) (files w1) = (out, fs)
      \<and> (\<forall>l\<in>set out. \<forall>g a p. parse_reference l = Some (g, a, p)
            \<longrightarrow> symcache_file_name g a \<in> fs)"
  then have "\<forall>l\<in>set out. \<forall>g a p. parse_reference l = Some (g, a, p)
             \<longrightarrow> path_exists (symcache_file_name g a) ?w4"
    by (simp add: path_exists_def)
  then have "scan_lines P out False ?w4 = (Inr False, ?w4)"
    by (rule scan_lines_all_cached)
  with a have run: "run_and_look_for_matches P ?cmd ?w3 = (Inr False, ?w4)"
    by (simp add: run_and_look_for_matches_def seq_def popen_def)
  from a have m: "main P argv w0 =
    (case run_and_look_for_matches P ?cmd ?w3 of
       (Inl e, w4) \<Rightarrow> (Inl e, w4)
     | (Inr found_uncached, w4) \<Rightarrow> finish P (argv ! 1) [] [] [] found_uncached w4)"
    by (intro main_scan [where script_dir = "fst (path_split P (argv ! 0))" and ?w1.0 = w1])
      simp_all
  show "main P argv w0 =
          (Inr (), w1\<lparr>files := fs,
                       stdout := stdout w1 @
                         [''Pre-translating chrome symbols from stripped PDBs ''
                            @ ''to avoid 10-15 minute translation times.'',
                          ''> '' @ scan_command (argv ! 1),
                          ''No uncached PDBS found, nothing to do.''],
                       events := events w1 @ [Popen (scan_command (argv ! 1))]\<rparr>)"
    unfolding m run by (simp add: finish_def py_print_def print_line_def)
qed

theorem cached_references_are_skipped_witness:
  "parse_reference sample_line =
     Some (''AAAAAAAABBBBCCCCDDDDEEEEEEEEEEEE'', ''3'',
           ''C:'' @ bslash # ''x'' @ bslash # ''chrome.dll.pdb'')
   \<and> path_exists sample_cache_file (start_world (insert sample_cache_file tool_files))
   \<and> scan_lines sample_platform [sample_line] False
         (start_world (insert sample_cache_file tool_files))
       = (Inr False, start_world (insert sample_cache_file tool_files))
   \<and> run_and_look_for_matches sample_platform (scan_command ''trace.etl'')
         (start_world (insert sample_cache_file tool_files))
       = (Inr False, (start_world (insert sample_cache_file tool_files))
            \<lparr>events := [Popen (scan_command ''trace.etl'')]\<rparr>)
   \<and> main sample_platform sample_argv (start_world (insert sample_cache_file tool_files))
       = (Inr (), (start_world (insert sample_cache_file tool_files))
            \<lparr>stdout := [''Pre-translating chrome symbols from stripped PDBs ''
                            @ ''to avoid 10-15 minute translation times.'',
                        ''> '' @ scan_command ''trace.etl'',
                        ''No uncached PDBS found, nothing to do.''],
             events := [Popen (scan_command ''trace.etl'')]\<rparr>)"
proof -
  let ?w = "start_world (insert sample_cache_file tool_files)"
  have j: "path_join sample_platform = simple_join" "path_split sample_platform = simple_split"
    by (simp_all add: sample_platform_def simple_platform_def)
  have sub: "tool_files \<subseteq> insert sample_cache_file tool_files" by auto
  have c: "copy_support_files sample_platform
             (fst (path_split sample_platform (sample_argv ! 0)))
             [''pdbcopy.exe'', ''dbghelp.dll'', ''symsrv.dll''] ?w = (Inr (), ?w)"
    by (rule copy_support_files_present) (rule tool_files_present(1) [OF sub])
  have p: "path_exists (path_join sample_platform
             [fst (path_split sample_platform (sample_argv ! 0)), ''pdbcopy.exe'']) ?w"
    "path_exists (path_join sample_platform
             [fst (path_split sample_platform (sample_argv ! 0)), ''RetrieveSymbols.exe'']) ?w"
    using tool_files_present(2,3) [OF sub]
    by (simp_all add: j sample_preflight del: One_nat_def)
  have sh: "shell sample_platform (scan_command (sample_argv ! 1)) (symbol_path ?w) (files ?w)
      = ([sample_line], insert sample_cache_file tool_files)"
    by (simp add: sample_preflight(2) sample_shell start_world_fields del: One_nat_def)
  have sh': "shell sample_platform (scan_command ''trace.etl'') (symbol_path ?w) (files ?w)
      = ([sample_line], insert sample_cache_file tool_files)"
    by (simp add: sample_shell start_world_fields)
  have ex: "path_exists sample_cache_file ?w"
    by (simp add: path_exists_def start_world_fields)
  have all: "\<forall>l\<in>set [sample_line]. \<forall>g a p. parse_reference l = Some (g, a, p)
            \<longrightarrow> symcache_file_name g a \<in> insert sample_cache_file tool_files"
    by (simp add: sample_line_parsed sample_cache_file_eq)
  note t = cached_references_are_skipped [of sample_line
      "''AAAAAAAABBBBCCCCDDDDEEEEEEEEEEEE''" "''3''"
      "''C:'' @ bslash # ''x'' @ bslash # ''chrome.dll.pdb''" ?w sample_platform "[]" False
      "scan_command ''trace.etl''" "[sample_line]" "insert sample_cache_file tool_files"
      sample_argv ?w ?w]
  from t sample_line_parsed ex
  have s: "scan_lines sample_platform [sample_line] False ?w = (Inr False, ?w)"
    by (simp add: sample_cache_file_eq)
  from t sh' all
  have r: "run_and_look_for_matches sample_platform (scan_command ''trace.etl'') ?w
       = (Inr False, ?w\<lparr>events := [Popen (scan_command ''trace.etl'')]\<rparr>)"
    by (simp add: start_world_fields start_world_def)
  from t sample_preflight(1) sample_preflight(3) [of "insert sample_cache_file tool_files"]
    c p sh all
  have "main sample_platform sample_argv ?w =
          (Inr (), ?w\<lparr>files := insert sample_cache_file tool_files,
                       stdout := stdout ?w @
                         [''Pre-translating chrome symbols from stripped PDBs ''
                            @ ''to avoid 10-15 minute translation times.'',
                          ''> '' @ scan_command (sample_argv ! 1),
                          ''No uncached PDBS found, nothing to do.''],
                       events := events ?w @ [Popen (scan_command (sample_argv ! 1))]\<rparr>)"
    by blast
  then have m: "main sample_platform sample_argv ?w
       = (Inr (), ?w
            \<lparr>stdout := [''Pre-translating chrome symbols from stripped PDBs ''
                            @ ''to avoid 10-15 minute translation times.'',
                        ''> '' @ scan_command ''trace.etl'',
                        ''No uncached PDBS found, nothing to do.''],
             events := [Popen (scan_command ''trace.etl'')]\<rparr>)"
    by (simp add: sample_preflight(2) start_world_def del: One_nat_def)
  from sample_line_parsed ex s r m show ?thesis
    by (intro conjI)
qed

text \<open>
  C2. In the module as it is, \<^verbatim>\<open>symcache_files\<close>, \<^verbatim>\<open>local_symbol_files\<close>,
  \<^verbatim>\<open>tempdirs\<close>, \<^verbatim>\<open>retrieve_path\<close> and \<^verbatim>\<open>pdbcopy_path\<close> are not
  global names. So when the enumerator's output has a line that mentions a watched
  name, matches the pattern and has no cache file, \<^verbatim>\<open>run_and_look_for_matches\<close>
  ends with \<^verbatim>\<open>NameError\<close> for \<^verbatim>\<open>symcache_files\<close>, an exception that gives
  exit status 1; the enumerator is the only program that has been run, nothing has
  been retrieved or stripped. \<^verbatim>\<open>main\<close> does not catch the exception: when
  the call is the one of line 152, after a preflight that passed, the process ends
  with it.
\<close>

theorem uncached_reference_raises_NameError:
  assumes "globals w = module_globals"
    and "shell P command (symbol_path w) (files w) = (out, fs)"
    and "line \<in> set out"
    and "parse_reference line = Some (guid, age, path)"
    and "symcache_file_name guid age \<notin> fs"
  shows "fst (run_and_look_for_matches P command w) = Inl (NameError ''symcache_files'')
    \<and> exit_status (fst (run_and_look_for_matches P command w)) = 1
    \<and> events (snd (run_and_look_for_matches P command w)) = events w @ [Popen command]
    \<and> files (snd (run_and_look_for_matches P command w)) = fs
    \<and> globals w ''symcache_files'' = None \<and> globals w ''local_symbol_files'' = None
    \<and> globals w ''tempdirs'' = None \<and> globals w ''retrieve_path'' = None
    \<and> globals w ''pdbcopy_path'' = None
    \<and> (2 \<le> length argv
        \<and> str_count ''chromium-browser-symsrv''
             (case symbol_path w0 of None \<Rightarrow> [] | Some s \<Rightarrow> s) \<noteq> 0
        \<and> copy_support_files P (fst (path_split P (argv ! 0)))
             [''pdbcopy.exe'', ''dbghelp.dll'', ''symsrv.dll''] w0 = (Inr (), w1)
        \<and> path_exists (path_join P [fst (path_split P (argv ! 0)), ''pdbcopy.exe'']) w1
        \<and> path_exists (path_join P [fst (path_split P (argv ! 0)), ''RetrieveSymbols.exe'']) w1
        \<and> command = scan_command (argv ! 1)
        \<and> w = print_line (''> '' @ scan_command (argv ! 1))
                (print_line (''Pre-translating chrome symbols from stripped PDBs ''
                               @ ''to avoid 10-15 minute translation times.'') w1)
       \<longrightarrow> fst (main P argv w0) = Inl (NameError ''symcache_files'')
           \<and> exit_status (fst (main P argv w0)) = 1)"
proof -
  let ?w = "w\<lparr>files := fs, events := events w @ [Popen command]\<rparr>"
  have g: "globals ?w ''symcache_files'' = None"
    using assms(1) by (simp add: module_globals_unbound)
  have "\<not> path_exists (symcache_file_name guid age) ?w"
    using assms(5) by (simp add: path_exists_def)
  from scan_lines_uncached_unbound [OF g assms(3,4) this]
  obtain msg where "scan_lines P out False ?w
      = (Inl (NameError ''symcache_files''), print_line msg ?w)"
    by blast
  then have run: "run_and_look_for_matches P command w =
      (Inl (NameError ''symcache_files''), print_line msg ?w)"
    using assms(2) by (simp add: run_and_look_for_matches_def seq_def popen_def)
  have process: "fst (main P argv w0) = Inl (NameError ''symcache_files'')
           \<and> exit_status (fst (main P argv w0)) = 1"
    if "2 \<le> length argv"
      and "str_count ''chromium-browser-symsrv''
             (case symbol_path w0 of None \<Rightarrow> [] | Some s \<Rightarrow> s) \<noteq> 0"
      and "copy_support_files P (fst (path_split P (argv ! 0)))
             [''pdbcopy.exe'', ''dbghelp.dll'', ''symsrv.dll''] w0 = (Inr (), w1)"
      and "path_exists (path_join P [fst (path_split P (argv ! 0)), ''pdbcopy.exe'']) w1"
      and "path_exists (path_join P [fst (path_split P (argv ! 0)), ''RetrieveSymbols.exe'']) w1"
      and "command = scan_command (argv ! 1)"
      and "w = print_line (''> '' @ scan_command (argv ! 1))
                (print_line (''Pre-translating chrome symbols from stripped PDBs ''
                               @ ''to avoid 10-15 minute translation times.'') w1)"
  proof -
    from main_scan [OF that(1,2) refl refl that(3,4,5)] run that(6,7)
    have "main P argv w0 = (Inl (NameError ''symcache_files''), print_line msg ?w)"
      by simp
    then show ?thesis by (simp add: exit_status_def)
  qed
  from run process show ?thesis
    using assms(1) by (simp add: exit_status_def module_globals_unbound)
qed

theorem uncached_reference_raises_NameError_witness:
  "globals (start_world tool_files) = module_globals
   \<and> shell sample_platform (scan_command ''trace.etl'') (symbol_path (start_world tool_files))
         (files (start_world tool_files)) = ([sample_line], tool_files)
   \<and> sample_line \<in> set [sample_line]
   \<and> parse_reference sample_line =
       Some (''AAAAAAAABBBBCCCCDDDDEEEEEEEEEEEE'', ''3'',
             ''C:'' @ bslash # ''x'' @ bslash # ''chrome.dll.pdb'')
   \<and> symcache_file_name ''AAAAAAAABBBBCCCCDDDDEEEEEEEEEEEE'' ''3'' \<notin> tool_files
   \<and> fst (run_and_look_for_matches sample_platform (scan_command ''trace.etl'')
         (print_line (''> '' @ scan_command ''trace.etl'')
            (print_line (''Pre-translating chrome symbols from stripped PDBs ''
                           @ ''to avoid 10-15 minute translation times.'')
               (start_world tool_files)))) = Inl (NameError ''symcache_files'')
   \<and> fst (main sample_platform sample_argv (start_world tool_files))
       = Inl (NameError ''symcache_files'')
   \<and> exit_status (fst (main sample_platform sample_argv (start_world tool_files))) = 1"
proof -
  let ?w = "print_line (''> '' @ scan_command ''trace.etl'')
            (print_line (''Pre-translating chrome symbols from stripped PDBs ''
                           @ ''to avoid 10-15 minute translation times.'')
               (start_world tool_files))"
  have j: "path_join sample_platform = simple_join" "path_split sample_platform = simple_split"
    by (simp_all add: sample_platform_def simple_platform_def)
  have h0: "globals (start_world tool_files) = module_globals"
    by (simp add: start_world_def)
  have h1: "globals ?w = module_globals"
    by (simp add: start_world_def)
  have h2: "shell sample_platform (scan_command ''trace.etl'') (symbol_path ?w) (files ?w)
      = ([sample_line], tool_files)"
    by (simp add: sample_shell start_world_def)
  have h2': "shell sample_platform (scan_command ''trace.etl'')
      (symbol_path (start_world tool_files)) (files (start_world tool_files))
      = ([sample_line], tool_files)"
    by (simp add: sample_shell start_world_def)
  have h3: "sample_line \<in> set [sample_line]" by simp
  have h5: "symcache_file_name ''AAAAAAAABBBBCCCCDDDDEEEEEEEEEEEE'' ''3'' \<notin> tool_files"
    by (simp add: sample_cache_file_eq sample_cache_file_not_tool)
  have c: "copy_support_files sample_platform (fst (path_split sample_platform (sample_argv ! 0)))
           [''pdbcopy.exe'', ''dbghelp.dll'', ''symsrv.dll''] (start_world tool_files)
         = (Inr (), start_world tool_files)"
    by (rule copy_support_files_present) (rule tool_files_present(1) [OF subset_refl])
  have p: "path_exists (path_join sample_platform
             [fst (path_split sample_platform (sample_argv ! 0)), ''pdbcopy.exe''])
             (start_world tool_files)"
    "path_exists (path_join sample_platform
             [fst (path_split sample_platform (sample_argv ! 0)), ''RetrieveSymbols.exe''])
             (start_world tool_files)"
    using tool_files_present(2,3) [OF subset_refl]
    by (simp_all add: j sample_preflight del: One_nat_def)
  have t: "scan_command ''trace.etl'' = scan_command (sample_argv ! 1)"
    "?w = print_line (''> '' @ scan_command (sample_argv ! 1))
            (print_line (''Pre-translating chrome symbols from stripped PDBs ''
                           @ ''to avoid 10-15 minute translation times.'')
               (start_world tool_files))"
    by (simp_all add: sample_preflight(2) del: One_nat_def)
  note u = uncached_reference_raises_NameError [OF h1 h2 h3 sample_line_parsed h5,
      of sample_argv "start_world tool_files" "start_world tool_files"]
  from u have r: "fst (run_and_look_for_matches sample_platform (scan_command ''trace.etl'') ?w)
      = Inl (NameError ''symcache_files'')"
    by blast
  from u sample_preflight(1) sample_preflight(3) [of tool_files] c p t
  have m: "fst (main sample_platform sample_argv (start_world tool_files))
       = Inl (NameError ''symcache_files'')
     \<and> exit_status (fst (main sample_platform sample_argv (start_world tool_files))) = 1"
    by blast
  from h0 h2' h3 sample_line_parsed h5 r m show ?thesis
    by (intro conjI) blast+
qed

section \<open>Properties of \<^verbatim>\<open>main\<close>\<close>

lemma scan_lines_no_mention:
  assumes "\<forall>line\<in>set ls. \<not> mentions_chrome line"
  shows "scan_lines P ls found w = (Inr found, w)"
  using assms by (induction ls) (simp_all add: parse_reference_def)

lemma no_watched_name_scan:
  assumes "shell P command (symbol_path w) (files w) = (out, fs)"
    and "\<forall>line\<in>set out. \<not> mentions_chrome line"
  shows "run_and_look_for_matches P command w =
           (Inr False, w\<lparr>files := fs, events := events w @ [Popen command]\<rparr>)"
  using assms
  by (simp add: run_and_look_for_matches_def seq_def popen_def scan_lines_no_mention)

text \<open>
  C5, as the code has it. When the preflight passes and no line of the enumerator's
  output mentions \<^verbatim>\<open>chrome.dll\<close> or \<^verbatim>\<open>chrome_child.dll\<close>, the enumerator
  is the only program run, the process ends normally with exit status 0, and it has
  printed three lines: the two scan-start lines and then
  \<^verbatim>\<open>No uncached PDBS found, nothing to do.\<close>
\<close>

theorem no_watched_name_run:
  assumes "2 \<le> length argv"
    and "str_count ''chromium-browser-symsrv''
           (case symbol_path w of None \<Rightarrow> [] | Some s \<Rightarrow> s) \<noteq> 0"
    and "fst (path_split P (argv ! 0)) = script_dir"
    and "argv ! 1 = tracename"
    and "copy_support_files P script_dir
           [''pdbcopy.exe'', ''dbghelp.dll'', ''symsrv.dll''] w = (Inr (), w1)"
    and "path_exists (path_join P [script_dir, ''pdbcopy.exe'']) w1"
    and "path_exists (path_join P [script_dir, ''RetrieveSymbols.exe'']) w1"
    and "shell P (scan_command tracename) (symbol_path w1) (files w1) = (out, fs)"
    and "\<forall>line\<in>set out. \<not> mentions_chrome line"
  shows "main P argv w =
      (Inr (), w1\<lparr>files := fs,
                   stdout := stdout w1 @
                     [''Pre-translating chrome symbols from stripped PDBs ''
                        @ ''to avoid 10-15 minute translation times.'',
                      ''> '' @ scan_command tracename,
                      ''No uncached PDBS found, nothing to do.''],
                   events := events w1 @ [Popen (scan_command tracename)]\<rparr>)
    \<and> exit_status (fst (main P argv w)) = 0"
proof -
  let ?w3 = "print_line (''> '' @ scan_command tracename)
              (print_line (''Pre-translating chrome symbols from stripped PDBs ''
                             @ ''to avoid 10-15 minute translation times.'') w1)"
  have "shell P (scan_command tracename) (symbol_path ?w3) (files ?w3) = (out, fs)"
    using assms(8) by simp
  from no_watched_name_scan [OF this assms(9)]
  have "main P argv w =
      finish P tracename [] [] [] False
        (?w3\<lparr>files := fs, events := events ?w3 @ [Popen (scan_command tracename)]\<rparr>)"
    by (simp add: main_scan [OF assms(1-7)])
  then have "main P argv w =
      (Inr (), w1\<lparr>files := fs,
                   stdout := stdout w1 @
                     [''Pre-translating chrome symbols from stripped PDBs ''
                        @ ''to avoid 10-15 minute translation times.'',
                      ''> '' @ scan_command tracename,
                      ''No uncached PDBS found, nothing to do.''],
                   events := events w1 @ [Popen (scan_command tracename)]\<rparr>)"
    by (simp add: finish_def py_print_def print_line_def)
  then show ?thesis by (simp add: exit_status_def)
qed

lemma quiet_run:
  "main simple_platform sample_argv (start_world tool_files) =
     (Inr (), (start_world tool_files)
        \<lparr>stdout := [''Pre-translating chrome symbols from stripped PDBs ''
                        @ ''to avoid 10-15 minute translation times.'',
                    ''> '' @ scan_command ''trace.etl'',
                    ''No uncached PDBS found, nothing to do.''],
         events := [Popen (scan_command ''trace.etl'')]\<rparr>)"
proof -
  have "run_and_look_for_matches simple_platform (scan_command ''trace.etl'')
          (print_line (''> '' @ scan_command ''trace.etl'')
            (print_line (''Pre-translating chrome symbols from stripped PDBs ''
                           @ ''to avoid 10-15 minute translation times.'')
              (start_world tool_files)))
        = (Inr False, (start_world tool_files)
        \<lparr>stdout := [''Pre-translating chrome symbols from stripped PDBs ''
                        @ ''to avoid 10-15 minute translation times.'',
                    ''> '' @ scan_command ''trace.etl''],
         events := [Popen (scan_command ''trace.etl'')]\<rparr>)"
    by (simp add: run_and_look_for_matches_def seq_def popen_def simple_platform_def
        quiet_shell_def print_line_def start_world_def)
  then show ?thesis
    by (simp add: sample_main_scan simple_platform_def finish_def py_print_def print_line_def)
qed

text \<open>
  The third line is printed also when the enumerator prints nothing at all.
\<close>

theorem no_watched_name_prints_three_lines:
  "shell simple_platform (scan_command ''trace.etl'') (symbol_path (start_world tool_files))
      (files (start_world tool_files)) = ([], tool_files)
   \<and> fst (main simple_platform sample_argv (start_world tool_files)) = Inr ()
   \<and> stdout (snd (main simple_platform sample_argv (start_world tool_files))) =
       [''Pre-translating chrome symbols from stripped PDBs ''
          @ ''to avoid 10-15 minute translation times.'',
        ''> '' @ scan_command ''trace.etl'',
        ''No uncached PDBS found, nothing to do.'']
   \<and> stdout (snd (main simple_platform sample_argv (start_world tool_files))) \<noteq>
       [''Pre-translating chrome symbols from stripped PDBs ''
          @ ''to avoid 10-15 minute translation times.'',
        ''> '' @ scan_command ''trace.etl'']"
proof -
  have "shell simple_platform (scan_command ''trace.etl'')
      (symbol_path (start_world tool_files)) (files (start_world tool_files))
      = ([], tool_files)"
    by (simp add: simple_platform_def quiet_shell_def start_world_def)
  then show ?thesis
    by (simp add: quiet_run)
qed

lemma ntdll_line_no_mention: "\<not> mentions_chrome ntdll_line"
  by (simp add: mentions_chrome_def ntdll_line_def dquote_def newline_def)

theorem no_watched_name_run_witness:
  "2 \<le> length sample_argv
   \<and> shell (simple_platform\<lparr>shell := scan_shell [ntdll_line]\<rparr>) (scan_command ''trace.etl'')
        (symbol_path (start_world tool_files)) (files (start_world tool_files))
      = ([ntdll_line], tool_files)
   \<and> \<not> mentions_chrome ntdll_line
   \<and> main (simple_platform\<lparr>shell := scan_shell [ntdll_line]\<rparr>) sample_argv
        (start_world tool_files) =
      (Inr (), (start_world tool_files)
        \<lparr>stdout := [''Pre-translating chrome symbols from stripped PDBs ''
                        @ ''to avoid 10-15 minute translation times.'',
                    ''> '' @ scan_command ''trace.etl'',
                    ''No uncached PDBS found, nothing to do.''],
         events := [Popen (scan_command ''trace.etl'')]\<rparr>)
   \<and> exit_status (fst (main (simple_platform\<lparr>shell := scan_shell [ntdll_line]\<rparr>) sample_argv
        (start_world tool_files))) = 0"
proof -
  let ?P = "simple_platform\<lparr>shell := scan_shell [ntdll_line]\<rparr>"
  have j: "path_join ?P = simple_join" "path_split ?P = simple_split"
    by (simp_all add: simple_platform_def)
  have c: "copy_support_files ?P []
           [''pdbcopy.exe'', ''dbghelp.dll'', ''symsrv.dll''] (start_world tool_files)
         = (Inr (), start_world tool_files)"
    by (rule copy_support_files_present) (rule tool_files_present(1) [OF subset_refl])
  have sh: "shell ?P (scan_command ''trace.etl'')
        (symbol_path (start_world tool_files)) (files (start_world tool_files))
      = ([ntdll_line], tool_files)"
    by (simp add: scan_shell_def start_world_def)
  have nm: "\<forall>line\<in>set [ntdll_line]. \<not> mentions_chrome line"
    by (simp add: ntdll_line_no_mention)
  have "main ?P sample_argv (start_world tool_files) =
      (Inr (), (start_world tool_files)\<lparr>files := tool_files,
                   stdout := stdout (start_world tool_files) @
                     [''Pre-translating chrome symbols from stripped PDBs ''
                        @ ''to avoid 10-15 minute translation times.'',
                      ''> '' @ scan_command ''trace.etl'',
                      ''No uncached PDBS found, nothing to do.''],
                   events := events (start_world tool_files)
                     @ [Popen (scan_command ''trace.etl'')]\<rparr>)
    \<and> exit_status (fst (main ?P sample_argv (start_world tool_files))) = 0"
    by (rule no_watched_name_run [where script_dir = "[]", OF _ _ _ _ c _ _ sh nm])
      (simp_all add: j sample_preflight tool_files_present(2,3) [OF subset_refl]
        del: One_nat_def)
  then show ?thesis
    using sh nm by (simp add: sample_preflight(1) start_world_def exit_status_def)
qed

section \<open>Exit status\<close>

lemma no_exit_seq:
  assumes "no_exit m" and "\<And>a. no_exit (f a)"
  shows "no_exit (seq m f)"
  unfolding no_exit_def
proof (intro allI)
  fix w n
  show "fst (seq m f w) \<noteq> Inl (SystemExit n)"
  proof (cases "m w")
    case (Pair r w')
    show ?thesis
    proof (cases r)
      case (Inl e)
      with Pair assms(1) show ?thesis
        by (auto simp add: seq_def no_exit_def dest: spec [where x = w])
    next
      case (Inr a)
      with Pair assms(2) [of a] show ?thesis
        by (simp add: seq_def no_exit_def)
    qed
  qed
qed

lemma no_exit_basic:
  "no_exit (py_print s)"
  "no_exit (ret a)"
  "no_exit (global_append name x)"
  "no_exit (global_str P name)"
  "no_exit (popen P command)"
  "no_exit (mkdtemp P)"
  by (auto simp add: no_exit_def py_print_def ret_def global_append_def global_str_def
      popen_def mkdtemp_def Let_def split: option.splits pyval.splits prod.splits)

lemma no_exit_strip_pdb: "no_exit (strip_pdb P p)"
  unfolding strip_pdb_def Let_def
  by (intro no_exit_seq no_exit_basic) (simp add: no_exit_def)

lemma no_exit_local_fallback: "no_exit (local_fallback path pcp)"
proof -
  have "no_exit (seq (global_append ''local_symbol_files'' path) (\<lambda>_. ret (Some path)))"
    by (intro no_exit_seq no_exit_basic)
  then show ?thesis
    using no_exit_basic(2) [of pcp]
    by (simp add: no_exit_def local_fallback_def)
qed

lemma no_exit_handle_uncached: "no_exit (handle_uncached P guid age path)"
  unfolding handle_uncached_def Let_def
  apply (intro no_exit_seq no_exit_basic no_exit_local_fallback)
  subgoal by (simp add: no_exit_def split: prod.splits)
  subgoal for a b c d e f g
    by (cases g) (simp_all add: no_exit_basic no_exit_strip_pdb)
  done

lemma no_exit_scan_lines: "fst (scan_lines P ls found w) \<noteq> Inl (SystemExit n)"
proof (induction ls arbitrary: found w)
  case Nil
  then show ?case by simp
next
  case (Cons l ls)
  show ?case
  proof (cases "parse_reference l")
    case None
    with Cons show ?thesis by simp
  next
    case (Some r)
    obtain g a p where r: "r = (g, a, p)" by (cases r)
    have h: "fst (handle_uncached P g a p w) \<noteq> Inl (SystemExit n)"
      using no_exit_handle_uncached [of P g a p] by (simp add: no_exit_def)
    show ?thesis
      using Some r Cons h
      by (cases "handle_uncached P g a p w") (auto split: sum.splits)
  qed
qed

lemma no_exit_run: "fst (run_and_look_for_matches P command w) \<noteq> Inl (SystemExit n)"
  by (simp add: run_and_look_for_matches_def seq_def popen_def no_exit_scan_lines
      split: prod.splits)

lemma no_exit_copy_support_files:
  "fst (copy_support_files P script_dir fs w) \<noteq> Inl (SystemExit n)"
  by (induction fs arbitrary: w) (auto simp add: copy2_def Let_def)

lemma main_exit_zero:
  assumes "fst (main P argv w) = Inl (SystemExit n)"
  shows "n = 0"
proof (cases "length argv < 2")
  case True
  with assms show ?thesis
    by (cases argv) (simp_all add: main_def)
next
  case long: False
  let ?sp = "case symbol_path w of None \<Rightarrow> [] | Some s \<Rightarrow> s"
  show ?thesis
  proof (cases "str_count ''chromium-browser-symsrv'' ?sp = 0")
    case True
    with long assms show ?thesis by (simp add: main_def)
  next
    case marker: False
    let ?dir = "fst (path_split P (argv ! 0))"
    obtain r w1 where c: "copy_support_files P ?dir
        [''pdbcopy.exe'', ''dbghelp.dll'', ''symsrv.dll''] w = (r, w1)"
      by (cases "copy_support_files P ?dir [''pdbcopy.exe'', ''dbghelp.dll'', ''symsrv.dll''] w")
    show ?thesis
    proof (cases r)
      case (Inl e)
      with c no_exit_copy_support_files [of P ?dir _ w]
      have "e \<noteq> SystemExit n" by (metis fst_conv)
      with long marker c Inl assms show ?thesis
        by (simp add: main_def Let_def del: copy_support_files.simps)
    next
      case (Inr u)
      show ?thesis
      proof (cases "path_exists (path_join P [?dir, ''pdbcopy.exe'']) w1
                    \<and> path_exists (path_join P [?dir, ''RetrieveSymbols.exe'']) w1")
        case False
        with long marker c Inr assms show ?thesis
          by (auto simp add: main_def Let_def simp del: copy_support_files.simps
              split: if_splits)
      next
        case True
        let ?w3 = "print_line (''> '' @ scan_command (argv ! 1))
              (print_line (''Pre-translating chrome symbols from stripped PDBs ''
                             @ ''to avoid 10-15 minute translation times.'') w1)"
        have m: "main P argv w =
          (case run_and_look_for_matches P (scan_command (argv ! 1)) ?w3 of
             (Inl e, w4) \<Rightarrow> (Inl e, w4)
           | (Inr found_uncached, w4) \<Rightarrow> finish P (argv ! 1) [] [] [] found_uncached w4)"
          using long marker c Inr True
          by (intro main_scan [where script_dir = ?dir and ?w1.0 = w1]) simp_all
        obtain r4 w4 where run: "run_and_look_for_matches P (scan_command (argv ! 1)) ?w3
            = (r4, w4)"
          by (cases "run_and_look_for_matches P (scan_command (argv ! 1)) ?w3")
        show ?thesis
        proof (cases r4)
          case (Inl e)
          with run no_exit_run [of P "scan_command (argv ! 1)" ?w3 n]
          have "e \<noteq> SystemExit n" by simp
          with assms m run Inl show ?thesis by simp
        next
          case (Inr found)
          with assms m run show ?thesis
            by (simp add: finish_def py_print_def split: if_splits)
        qed
      qed
    qed
  qed
qed

text \<open>
  Every \<^verbatim>\<open>sys.exit\<close> the program reaches passes 0, and falling off the end of
  \<^verbatim>\<open>main\<close> gives 0 as well: whenever the process ends without an uncaught
  exception other than \<^verbatim>\<open>SystemExit\<close>, its exit status is 0.
\<close>

lemma exit_status_zero_without_exception:
  "(\<forall>n. fst (main P argv w) = Inl (SystemExit n) \<longrightarrow> n = 0)
   \<and> ((\<forall>e. fst (main P argv w) = Inl e \<longrightarrow> (\<exists>n. e = SystemExit n))
        \<longrightarrow> exit_status (fst (main P argv w)) = 0)"
proof (intro conjI allI impI)
  fix n
  assume "fst (main P argv w) = Inl (SystemExit n)"
  then show "n = 0" by (rule main_exit_zero)
next
  assume a: "\<forall>e. fst (main P argv w) = Inl e \<longrightarrow> (\<exists>n. e = SystemExit n)"
  show "exit_status (fst (main P argv w)) = 0"
  proof (cases "fst (main P argv w)")
    case (Inl e)
    with a obtain n where "e = SystemExit n" by blast
    with Inl main_exit_zero [of P argv w n] show ?thesis
      by (simp add: exit_status_def)
  next
    case (Inr u)
    then show ?thesis by (simp add: exit_status_def)
  qed
qed

lemma usage_run:
  "main P [''StripChromeSymbols.py''] w =
     (Inl (SystemExit 0), print_line ''Usage: StripChromeSymbols.py trace.etl'' w)"
  by (simp add: main_def)

lemma usage_exit_status_zero:
  "fst (main simple_platform [''StripChromeSymbols.py''] (start_world {})) = Inl (SystemExit 0)
   \<and> exit_status (fst (main simple_platform [''StripChromeSymbols.py''] (start_world {}))) = 0"
  using exit_status_zero_without_exception
    [of simple_platform "[''StripChromeSymbols.py'']" "start_world {}"]
  by (simp add: usage_run)

lemma sample_run:
  "main sample_platform sample_argv (start_world tool_files) =
     (Inl (NameError ''symcache_files''),
      (start_world tool_files)
        \<lparr>stdout := [''Pre-translating chrome symbols from stripped PDBs ''
                        @ ''to avoid 10-15 minute translation times.'',
                    ''> '' @ scan_command ''trace.etl'',
                    ''Found uncached reference to chrome.dll.pdb: ''
                        @ ''AAAAAAAABBBBCCCCDDDDEEEEEEEEEEEE - 3''],
         events := [Popen (scan_command ''trace.etl'')]\<rparr>)"
proof -
  have j: "path_join sample_platform = simple_join" "path_split sample_platform = simple_split"
    by (simp_all add: sample_platform_def simple_platform_def)
  let ?w3 = "print_line (''> '' @ scan_command ''trace.etl'')
            (print_line (''Pre-translating chrome symbols from stripped PDBs ''
                           @ ''to avoid 10-15 minute translation times.'')
              (start_world tool_files))"
  have "run_and_look_for_matches sample_platform (scan_command ''trace.etl'') ?w3
        = (Inl (NameError ''symcache_files''), (start_world tool_files)
        \<lparr>stdout := [''Pre-translating chrome symbols from stripped PDBs ''
                        @ ''to avoid 10-15 minute translation times.'',
                    ''> '' @ scan_command ''trace.etl'',
                    ''Found uncached reference to chrome.dll.pdb: ''
                        @ ''AAAAAAAABBBBCCCCDDDDEEEEEEEEEEEE - 3''],
         events := [Popen (scan_command ''trace.etl'')]\<rparr>)"
    by (simp add: run_and_look_for_matches_def seq_def popen_def sample_shell
        sample_line_parsed sample_cache_file_eq path_exists_def sample_cache_file_not_tool
        handle_uncached_unbound module_globals_unbound j simple_split_def split_drive_def simple_join_def simple_normpath_def Let_def is_sep_def
        bslash_def print_line_def start_world_def)
  then show ?thesis
    by (simp add: sample_main_scan j)
qed

text \<open>
  C1 at a trace with one uncached reference, all tools in place: the exception of
  line 78 is not caught, and the process ends with exit status 1. The failure is
  signalled through the exit status.
\<close>

theorem uncached_reference_exit_status_one:
  "exit_status (fst (main sample_platform sample_argv (start_world tool_files))) = 1"
  by (simp add: sample_run exit_status_def)

section \<open>Two runs that end early\<close>

text \<open>
  C6 at a trace with one uncached reference, a retrieval tool that prints nothing and a
  PDB path that does not exist: the process ends with \<^verbatim>\<open>NameError\<close> at line 78.
  The retrieval tool is never run and \<^verbatim>\<open>Failed to retrieve symbols\<close> is never
  printed.
\<close>

theorem uncached_reference_stops_before_retrieval:
  "fst (main sample_platform sample_argv (start_world tool_files))
     = Inl (NameError ''symcache_files'')
   \<and> events (snd (main sample_platform sample_argv (start_world tool_files)))
     = [Popen (scan_command ''trace.etl'')]
   \<and> ''Failed to retrieve symbols. Check for RetrieveSymbols.exe and support files.''
     \<notin> set (stdout (snd (main sample_platform sample_argv (start_world tool_files))))
   \<and> shell sample_platform
         ''RetrieveSymbols.exe AAAAAAAABBBBCCCCDDDDEEEEEEEEEEEE 3 chrome.dll.pdb''
         (symbol_path (start_world tool_files)) tool_files = ([], tool_files)
   \<and> ''C:'' @ bslash # ''x'' @ bslash # ''chrome.dll.pdb'' \<notin> tool_files"
proof -
  have "shell sample_platform
         ''RetrieveSymbols.exe AAAAAAAABBBBCCCCDDDDEEEEEEEEEEEE 3 chrome.dll.pdb''
         (symbol_path (start_world tool_files)) tool_files = ([], tool_files)"
    by (simp add: sample_platform_def simple_platform_def scan_shell_def scan_command_def)
  moreover have "''C:'' @ bslash # ''x'' @ bslash # ''chrome.dll.pdb'' \<notin> tool_files"
    by (simp add: tool_files_def)
  moreover have "''Failed to retrieve symbols. Check for RetrieveSymbols.exe and support files.''
     \<notin> set (stdout (snd (main sample_platform sample_argv (start_world tool_files))))"
    by (simp add: sample_run scan_command_def)
  ultimately show ?thesis
    by (simp add: sample_run)
qed

text \<open>
  C9 at two starts. In an empty directory the copy of \<^verbatim>\<open>pdbcopy.exe\<close> raises,
  nothing is printed and the exit status is 1. Started from the parent directory,
  which holds the three support files, nothing is copied although the script's
  directory lacks \<^verbatim>\<open>pdbcopy.exe\<close>.
\<close>

theorem preflight_copy_failures:
  "main simple_platform sample_argv (start_world {})
     = (Inl (OSError (''..'' @ bslash # ''third_party'' @ bslash # ''pdbcopy.exe'')),
        start_world {})
   \<and> exit_status (fst (main simple_platform sample_argv (start_world {}))) = 1
   \<and> stdout (snd (main simple_platform sample_argv (start_world {}))) = []
   \<and> ''bin'' @ bslash # ''pdbcopy.exe'' \<notin> parent_files
   \<and> ''third_party'' @ bslash # ''pdbcopy.exe'' \<in> parent_files
   \<and> main simple_platform parent_argv (start_world parent_files)
     = (Inl (SystemExit 0),
        (start_world parent_files)
          \<lparr>stdout := [''pdbcopy.exe not found. No symbol stripping is possible.'']\<rparr>)
   \<and> events (snd (main simple_platform parent_argv (start_world parent_files))) = []"
proof -
  have a: "main simple_platform sample_argv (start_world {})
     = (Inl (OSError (''..'' @ bslash # ''third_party'' @ bslash # ''pdbcopy.exe'')),
        start_world {})"
    by (simp add: main_def Let_def sample_argv_def start_world_def simple_platform_def
        simple_split_def split_drive_def simple_join_def simple_normpath_def is_sep_def bslash_def path_exists_def copy2_def)
  have b: "main simple_platform parent_argv (start_world parent_files)
     = (Inl (SystemExit 0),
        (start_world parent_files)
          \<lparr>stdout := [''pdbcopy.exe not found. No symbol stripping is possible.'']\<rparr>)"
    by (simp add: main_def Let_def parent_argv_def parent_files_def start_world_def
        simple_platform_def simple_split_def split_drive_def simple_join_def simple_normpath_def is_sep_def bslash_def path_exists_def
        print_line_def)
  have c: "''bin'' @ bslash # ''pdbcopy.exe'' \<notin> parent_files"
    "''third_party'' @ bslash # ''pdbcopy.exe'' \<in> parent_files"
    by (simp_all add: parent_files_def bslash_def)
  show ?thesis
    using c by (simp add: a b exit_status_def start_world_fields)
qed

section \<open>The rebuild step is never reached\<close>



















section \<open>The cache file name and the watched names\<close>

lemma child_line_parsed:
  "parse_reference child_line =
     Some (''be90dbc6fe3148429c727e2ea88f0adf'', ''1'',
           ''C:'' @ bslash # ''b'' @ bslash # ''chrome_child.dll.pdb'')"
  by (simp add: parse_reference_def mentions_chrome_def re_match_def pdb_re_def lits_def
      child_line_def dquote_def bslash_def newline_def remove_dashes_def)

lemma child_shell:
  "shell child_platform (scan_command ''trace.etl'') sp fs = ([child_line], fs)"
  by (simp add: child_platform_def simple_platform_def scan_shell_def)

lemma chrome_dll_cache_eq:
  "symcache_file_name ''be90dbc6fe3148429c727e2ea88f0adf'' ''1'' = chrome_dll_cache"
  by (simp add: symcache_file_name_def chrome_dll_cache_def)

lemma child_cache_facts:
  "chrome_dll_cache \<notin> insert chrome_child_cache tool_files"
  by (simp add: chrome_dll_cache_def chrome_child_cache_def tool_files_def)

lemma child_run_cached:
  assumes "tool_files \<subseteq> fs" and "chrome_dll_cache \<in> fs"
  shows "main child_platform sample_argv (start_world fs) =
     (Inr (), (start_world fs)
        \<lparr>stdout := [''Pre-translating chrome symbols from stripped PDBs ''
                        @ ''to avoid 10-15 minute translation times.'',
                    ''> '' @ scan_command ''trace.etl'',
                    ''No uncached PDBS found, nothing to do.''],
         events := [Popen (scan_command ''trace.etl'')]\<rparr>)"
proof -
  have j: "path_join child_platform = simple_join" "path_split child_platform = simple_split"
    by (simp_all add: child_platform_def simple_platform_def)
  let ?w3 = "print_line (''> '' @ scan_command ''trace.etl'')
            (print_line (''Pre-translating chrome symbols from stripped PDBs ''
                           @ ''to avoid 10-15 minute translation times.'')
              (start_world fs))"
  have "run_and_look_for_matches child_platform (scan_command ''trace.etl'') ?w3
        = (Inr False, (start_world fs)
        \<lparr>stdout := [''Pre-translating chrome symbols from stripped PDBs ''
                        @ ''to avoid 10-15 minute translation times.'',
                    ''> '' @ scan_command ''trace.etl''],
         events := [Popen (scan_command ''trace.etl'')]\<rparr>)"
    using assms(2)
    by (simp add: run_and_look_for_matches_def seq_def popen_def child_shell
        child_line_parsed chrome_dll_cache_eq path_exists_def print_line_def start_world_def)
  then show ?thesis
    by (simp add: sample_main_scan [OF assms(1)] j finish_def py_print_def print_line_def)
qed

lemma child_run_uncached:
  assumes "tool_files \<subseteq> fs" and "chrome_dll_cache \<notin> fs"
  shows "main child_platform sample_argv (start_world fs) =
     (Inl (NameError ''symcache_files''),
      (start_world fs)
        \<lparr>stdout := [''Pre-translating chrome symbols from stripped PDBs ''
                        @ ''to avoid 10-15 minute translation times.'',
                    ''> '' @ scan_command ''trace.etl'',
                    ''Found uncached reference to chrome_child.dll.pdb: ''
                        @ ''be90dbc6fe3148429c727e2ea88f0adf - 1''],
         events := [Popen (scan_command ''trace.etl'')]\<rparr>)"
proof -
  have j: "path_join child_platform = simple_join" "path_split child_platform = simple_split"
    by (simp_all add: child_platform_def simple_platform_def)
  let ?w3 = "print_line (''> '' @ scan_command ''trace.etl'')
            (print_line (''Pre-translating chrome symbols from stripped PDBs ''
                           @ ''to avoid 10-15 minute translation times.'')
              (start_world fs))"
  have "run_and_look_for_matches child_platform (scan_command ''trace.etl'') ?w3
        = (Inl (NameError ''symcache_files''), (start_world fs)
        \<lparr>stdout := [''Pre-translating chrome symbols from stripped PDBs ''
                        @ ''to avoid 10-15 minute translation times.'',
                    ''> '' @ scan_command ''trace.etl'',
                    ''Found uncached reference to chrome_child.dll.pdb: ''
                        @ ''be90dbc6fe3148429c727e2ea88f0adf - 1''],
         events := [Popen (scan_command ''trace.etl'')]\<rparr>)"
    using assms(2)
    by (simp add: run_and_look_for_matches_def seq_def popen_def child_shell
        child_line_parsed chrome_dll_cache_eq path_exists_def
        handle_uncached_unbound module_globals_unbound j simple_split_def split_drive_def
        Let_def is_sep_def bslash_def print_line_def start_world_def)
  then show ?thesis
    by (simp add: sample_main_scan [OF assms(1)] j)
qed

text \<open>
  C10 in the program. For every line the loop tests the existence of
  \<^verbatim>\<open>c:\symcache\chrome.dll-\<close>, signature, age, \<^verbatim>\<open>v2.symcache\<close>, whatever the
  path in the line is. So the line for \<^verbatim>\<open>chrome_child.dll.pdb\<close> is passed over
  when the file with the \<^verbatim>\<open>chrome.dll-\<close> name exists, and counts as uncached when
  only a file with the \<^verbatim>\<open>chrome_child.dll-\<close> name exists. In that second run the
  reference is announced with its basename and then line 78 raises: the name is never
  recorded as an expected file (\<^verbatim>\<open>symcache_files\<close> is not bound at the end) and
  no retrieval command is ever run with the basename.
\<close>

theorem child_reference_checked_against_chrome_dll_name:
  "scan_lines P (line # rest) found w =
     (case parse_reference line of
        None \<Rightarrow> scan_lines P rest found w
      | Some (guid, age, path) \<Rightarrow>
          if path_exists (''c:'' @ bslash # ''symcache'' @ bslash # ''chrome.dll-''
                            @ guid @ age @ ''v2.symcache'') w
          then scan_lines P rest found w
          else (case handle_uncached P guid age path w of
                  (Inl e, w') \<Rightarrow> (Inl e, w')
                | (Inr u, w') \<Rightarrow> scan_lines P rest True w'))
   \<and> parse_reference child_line =
       Some (''be90dbc6fe3148429c727e2ea88f0adf'', ''1'',
             ''C:'' @ bslash # ''b'' @ bslash # ''chrome_child.dll.pdb'')
   \<and> main child_platform sample_argv (start_world (insert chrome_dll_cache tool_files)) =
       (Inr (), (start_world (insert chrome_dll_cache tool_files))
          \<lparr>stdout := [''Pre-translating chrome symbols from stripped PDBs ''
                          @ ''to avoid 10-15 minute translation times.'',
                      ''> '' @ scan_command ''trace.etl'',
                      ''No uncached PDBS found, nothing to do.''],
           events := [Popen (scan_command ''trace.etl'')]\<rparr>)
   \<and> fst (main child_platform sample_argv (start_world (insert chrome_child_cache tool_files)))
       = Inl (NameError ''symcache_files'')
   \<and> stdout (snd (main child_platform sample_argv
                     (start_world (insert chrome_child_cache tool_files)))) =
       [''Pre-translating chrome symbols from stripped PDBs ''
          @ ''to avoid 10-15 minute translation times.'',
        ''> '' @ scan_command ''trace.etl'',
        ''Found uncached reference to chrome_child.dll.pdb: ''
          @ ''be90dbc6fe3148429c727e2ea88f0adf - 1'']
   \<and> events (snd (main child_platform sample_argv
                     (start_world (insert chrome_child_cache tool_files))))
       = [Popen (scan_command ''trace.etl'')]
   \<and> globals (snd (main child_platform sample_argv
                     (start_world (insert chrome_child_cache tool_files)))) ''symcache_files''
       = None"
proof -
  have loop: "scan_lines P (line # rest) found w =
     (case parse_reference line of
        None \<Rightarrow> scan_lines P rest found w
      | Some (guid, age, path) \<Rightarrow>
          if path_exists (''c:'' @ bslash # ''symcache'' @ bslash # ''chrome.dll-''
                            @ guid @ age @ ''v2.symcache'') w
          then scan_lines P rest found w
          else (case handle_uncached P guid age path w of
                  (Inl e, w') \<Rightarrow> (Inl e, w')
                | (Inr u, w') \<Rightarrow> scan_lines P rest True w'))"
    by (simp add: symcache_file_name_def split: option.splits)
  have s1: "tool_files \<subseteq> insert chrome_dll_cache tool_files"
    and s2: "tool_files \<subseteq> insert chrome_child_cache tool_files"
    by auto
  have i1: "chrome_dll_cache \<in> insert chrome_dll_cache tool_files"
    by simp
  note a = child_run_cached [OF s1 i1]
  note b = child_run_uncached [OF s2 child_cache_facts]
  have runs: "fst (main child_platform sample_argv
                     (start_world (insert chrome_child_cache tool_files)))
       = Inl (NameError ''symcache_files'')
   \<and> stdout (snd (main child_platform sample_argv
                     (start_world (insert chrome_child_cache tool_files)))) =
       [''Pre-translating chrome symbols from stripped PDBs ''
          @ ''to avoid 10-15 minute translation times.'',
        ''> '' @ scan_command ''trace.etl'',
        ''Found uncached reference to chrome_child.dll.pdb: ''
          @ ''be90dbc6fe3148429c727e2ea88f0adf - 1'']
   \<and> events (snd (main child_platform sample_argv
                     (start_world (insert chrome_child_cache tool_files))))
       = [Popen (scan_command ''trace.etl'')]
   \<and> globals (snd (main child_platform sample_argv
                     (start_world (insert chrome_child_cache tool_files)))) ''symcache_files''
       = None"
    unfolding b by (simp add: start_world_fields module_globals_unbound)
  from loop child_line_parsed a runs show ?thesis
    by (intro conjI) blast+
qed

end
